theory Spec2Isabelle
  imports Main
begin

section \<open>Workspace resolution: \<^verbatim>\<open>dagster/cli/workspace/load.py\<close>\<close>

text \<open>
  The module turns a workspace document into repository location handles and merges
  the handles of several documents into one workspace. The embedding keeps one HOL
  function per Python function (a leading underscore of the Python name is dropped).
  Exceptions are values of the type \<open>error\<close>; the calls to the in-process target loader
  and to the remote lister are recorded, in order, in a trace of \<open>event\<close>s.
\<close>

subsection \<open>Python values\<close>

text \<open>
  An optional string is \<open>None\<close> or a \<open>str\<close>. The module tests such values with
  \<^verbatim>\<open>if x\<close>: \<open>None\<close> and the empty string are both false. \<open>if_truthy\<close> returns the
  value when the test succeeds.
\<close>

fun if_truthy :: "string option \<Rightarrow> string option" where
  "if_truthy None = None"
| "if_truthy (Some s) = (if s = [] then None else Some s)"

text \<open>An optional \<open>int\<close> is false when it is \<open>None\<close> or \<open>0\<close>.\<close>

fun truthy_int :: "int option \<Rightarrow> bool" where
  "truthy_int None = False"
| "truthy_int (Some i) = (i \<noteq> 0)"

definition truthy_str :: "string option \<Rightarrow> bool" where
  "truthy_str s = (if_truthy s \<noteq> None)"

text \<open>Decimal rendering of an \<open>int\<close>, as \<^verbatim>\<open>'{}'.format(port)\<close> prints it.\<close>

definition digit_char :: "nat \<Rightarrow> char" where
  "digit_char d = ''0123456789'' ! d"

function str_nat :: "nat \<Rightarrow> string" where
  "str_nat n = (if n < 10 then [digit_char n] else str_nat (n div 10) @ [digit_char (n mod 10)])"
  by pat_completeness auto
termination
  by (relation "measure (\<lambda>n. n)") auto

declare str_nat.simps [simp del]

definition str_int :: "int \<Rightarrow> string" where
  "str_int i = (if i < 0 then CHR ''-'' # str_nat (nat (- i)) else str_nat (nat i))"

subsection \<open>Dictionaries\<close>

text \<open>
  A Python \<open>dict\<close> keeps its keys in insertion order, and assigning to a key that is
  present replaces the value in place. It is an association list with distinct keys.
\<close>

type_synonym ('k, 'v) dict = "('k \<times> 'v) list"

fun dict_set :: "('k, 'v) dict \<Rightarrow> 'k \<Rightarrow> 'v \<Rightarrow> ('k, 'v) dict" where
  "dict_set [] k v = [(k, v)]"
| "dict_set ((k', v') # d) k v = (if k' = k then (k, v) # d else (k', v') # dict_set d k v)"

definition dict_keys :: "('k, 'v) dict \<Rightarrow> 'k list" where
  "dict_keys d = map fst d"

definition dict_values :: "('k, 'v) dict \<Rightarrow> 'v list" where
  "dict_values d = map snd d"

subsection \<open>Errors\<close>

text \<open>
  The exceptions the module raises, and the failures of its collaborators. The spec
  calls the \<open>DagsterInvariantViolationError\<close> of \<open>assign_location_name\<close> an
  AmbiguousLocationNameError, and the \<open>CheckError\<close> of a failed \<^verbatim>\<open>check.invariant\<close>,
  \<^verbatim>\<open>check.failed\<close> or \<^verbatim>\<open>check.not_implemented\<close> a ConfigurationError.
\<close>

datatype error =
    DagsterInvariantViolationError string
  | CheckError string
  | NotImplementedCheckError string
  | KeyError string
  | StopIteration
  | SchemaError string
  | LoadError string
  | RemoteError string

definition ambiguous_location_name :: error where
  "ambiguous_location_name =
     DagsterInvariantViolationError
       ''If there is one than more repository you must provide a location name''"

subsection \<open>Code pointers and loadable targets\<close>

text \<open>
  Modelled from the spec: the class \<open>CodePointer\<close> of \<^verbatim>\<open>dagster.core.code_pointer\<close> is
  not in load.py. The spec (section 3) gives its variants: a file pointer with an
  absolute path, an attribute and an optional working directory, a module pointer, a
  package pointer, and a legacy-format pointer built from the path of the document.
\<close>

datatype CodePointer =
    FileCodePointer string string "string option"
  | ModuleCodePointer string string
  | PackageCodePointer string string
  | LegacyRepositoryYamlCodePointer string

definition from_python_file :: "string \<Rightarrow> string \<Rightarrow> string option \<Rightarrow> CodePointer" where
  "from_python_file python_file attribute working_directory =
     FileCodePointer python_file attribute working_directory"

definition from_module :: "string \<Rightarrow> string \<Rightarrow> CodePointer" where
  "from_module module_name attribute = ModuleCodePointer module_name attribute"

definition from_python_package :: "string \<Rightarrow> string \<Rightarrow> CodePointer" where
  "from_python_package package_name attribute = PackageCodePointer package_name attribute"

definition from_legacy_repository_yaml :: "string \<Rightarrow> CodePointer" where
  "from_legacy_repository_yaml yaml_path = LegacyRepositoryYamlCodePointer yaml_path"

fun pointer_working_directory :: "CodePointer \<Rightarrow> string option" where
  "pointer_working_directory (FileCodePointer _ _ wd) = wd"
| "pointer_working_directory _ = None"

text \<open>
  A loaded definition reports its own name (\<^verbatim>\<open>target_definition.name\<close>). A
  \<open>LoadableTarget\<close> pairs the attribute that reaches a definition with the definition.
\<close>

datatype RepositoryDefinition = RepositoryDefinition string

fun definition_name :: "RepositoryDefinition \<Rightarrow> string" where
  "definition_name (RepositoryDefinition n) = n"

datatype LoadableTarget = LoadableTarget string RepositoryDefinition

fun target_attribute :: "LoadableTarget \<Rightarrow> string" where
  "target_attribute (LoadableTarget a _) = a"

fun target_definition :: "LoadableTarget \<Rightarrow> RepositoryDefinition" where
  "target_definition (LoadableTarget _ d) = d"

text \<open>
  Modelled from the spec: the response of the remote lister
  (\<^verbatim>\<open>dagster.api.list_repositories\<close>, not in load.py) is a list of name/attribute pairs
  (spec sections 6 and 9); load.py reads \<^verbatim>\<open>response.repository_symbols\<close> and the
  \<^verbatim>\<open>attribute\<close> of each symbol.
\<close>

datatype LoadableRepositorySymbol = LoadableRepositorySymbol string string

fun symbol_repository_name :: "LoadableRepositorySymbol \<Rightarrow> string" where
  "symbol_repository_name (LoadableRepositorySymbol n _) = n"

fun symbol_attribute :: "LoadableRepositorySymbol \<Rightarrow> string" where
  "symbol_attribute (LoadableRepositorySymbol _ a) = a"

subsection \<open>Configuration documents\<close>

text \<open>
  A \<^verbatim>\<open>python_file\<close> value is a bare string or a dict with the key \<^verbatim>\<open>relative_path\<close> and the
  optional keys \<^verbatim>\<open>attribute\<close>, \<^verbatim>\<open>location_name\<close>, \<^verbatim>\<open>working_directory\<close> (in this order
  below); likewise for modules and packages, which have no working directory.
\<close>

datatype PythonFileConfig =
    FileStr string
  | FileDict string "string option" "string option" "string option"

datatype PythonModuleConfig =
    ModuleStr string
  | ModuleDict string "string option" "string option"

datatype PythonPackageConfig =
    PackageStr string
  | PackageDict string "string option" "string option"

text \<open>
  \<^verbatim>\<open>d.get(key)\<close> of such a value is tested with \<^verbatim>\<open>if\<close>/\<^verbatim>\<open>or\<close>: a missing key and an empty
  string are false, a dict with its required key is true.
\<close>

fun truthy_file_config :: "PythonFileConfig option \<Rightarrow> PythonFileConfig option" where
  "truthy_file_config None = None"
| "truthy_file_config (Some (FileStr s)) = (if s = [] then None else Some (FileStr s))"
| "truthy_file_config (Some c) = Some c"

fun truthy_module_config :: "PythonModuleConfig option \<Rightarrow> PythonModuleConfig option" where
  "truthy_module_config None = None"
| "truthy_module_config (Some (ModuleStr s)) = (if s = [] then None else Some (ModuleStr s))"
| "truthy_module_config (Some c) = Some c"

fun truthy_package_config :: "PythonPackageConfig option \<Rightarrow> PythonPackageConfig option" where
  "truthy_package_config None = None"
| "truthy_package_config (Some (PackageStr s)) = (if s = [] then None else Some (PackageStr s))"
| "truthy_package_config (Some c) = Some c"

text \<open>
  A target config is a dict that may hold the keys \<^verbatim>\<open>python_file\<close>, \<^verbatim>\<open>python_module\<close> and
  \<^verbatim>\<open>python_package\<close>; a location entry may hold \<^verbatim>\<open>grpc_server\<close> and
  \<^verbatim>\<open>python_environment\<close> as well. A key that is absent is \<open>None\<close>. The fields carry a
  prefix for the dict they belong to.
\<close>

record TargetConfig =
  tc_python_file :: "PythonFileConfig option"
  tc_python_module :: "PythonModuleConfig option"
  tc_python_package :: "PythonPackageConfig option"

record GrpcServerConfig =
  grpc_port :: "int option"
  grpc_socket :: "string option"
  grpc_host :: "string option"
  grpc_location_name :: "string option"

record PythonEnvironmentConfig =
  pe_executable_path :: string
  pe_target :: TargetConfig

record LocationConfig = TargetConfig +
  lc_grpc_server :: "GrpcServerConfig option"
  lc_python_environment :: "PythonEnvironmentConfig option"

datatype LegacyRepositoryConfig = LegacyRepositoryConfig

record WorkspaceConfig =
  wc_repository :: "LegacyRepositoryConfig option"
  wc_opt_in :: "string list option"
  wc_load_from :: "LocationConfig list option"

subsection \<open>Handles and workspaces\<close>

datatype RepositoryLocationApi = CLI | GRPC

text \<open>
  Modelled from the spec: \<open>RepositoryLocationHandle\<close> and its factory methods
  (\<^verbatim>\<open>dagster.core.host_representation\<close>) are not in load.py. A handle (spec section 3)
  has a location name, a strategy, and a mapping from repository names to code
  pointers, or a server endpoint. The constructors keep the arguments load.py passes:
  name and mapping for an in-process handle; name, mapping and api for an out-of-process
  handle; executable path, name, mapping and api for a python-environment handle; port,
  socket, host and name for a server handle.
\<close>

datatype RepositoryLocationHandle =
    InProcessRepositoryLocationHandle string "(string, CodePointer) dict"
  | OutOfProcessRepositoryLocationHandle string "(string, CodePointer) dict" RepositoryLocationApi
  | PythonEnvRepositoryLocationHandle string string "(string, CodePointer) dict"
      RepositoryLocationApi
  | GrpcServerRepositoryLocationHandle "int option" "string option" string string

fun handle_location_name :: "RepositoryLocationHandle \<Rightarrow> string" where
  "handle_location_name (InProcessRepositoryLocationHandle n _) = n"
| "handle_location_name (OutOfProcessRepositoryLocationHandle n _ _) = n"
| "handle_location_name (PythonEnvRepositoryLocationHandle _ n _ _) = n"
| "handle_location_name (GrpcServerRepositoryLocationHandle _ _ _ n) = n"

fun handle_repository_code_pointer_dict ::
  "RepositoryLocationHandle \<Rightarrow> (string, CodePointer) dict" where
  "handle_repository_code_pointer_dict (InProcessRepositoryLocationHandle _ d) = d"
| "handle_repository_code_pointer_dict (OutOfProcessRepositoryLocationHandle _ d _) = d"
| "handle_repository_code_pointer_dict (PythonEnvRepositoryLocationHandle _ _ d _) = d"
| "handle_repository_code_pointer_dict (GrpcServerRepositoryLocationHandle _ _ _ _) = []"

text \<open>
  Modelled from the spec: the class \<open>Workspace\<close> (\<^verbatim>\<open>workspace.py\<close>) is not in load.py. The
  spec (sections 3 and 4.5) makes it a mapping from location names to handles, which
  exposes the location names and the handle of a name, and fails on an unknown name.
\<close>

type_synonym workspace = "(string, RepositoryLocationHandle) dict"

definition Workspace :: "RepositoryLocationHandle list \<Rightarrow> workspace" where
  "Workspace repository_location_handles =
     fold (\<lambda>h d. dict_set d (handle_location_name h) h) repository_location_handles []"

definition repository_location_names :: "workspace \<Rightarrow> string list" where
  "repository_location_names w = dict_keys w"

definition get_repository_location_handle ::
  "workspace \<Rightarrow> string \<Rightarrow> error + RepositoryLocationHandle" where
  "get_repository_location_handle w location_name =
     (case map_of w location_name of None \<Rightarrow> Inl (KeyError location_name) | Some h \<Rightarrow> Inr h)"

text \<open>
  The invariant of a workspace: its keys are distinct and every handle is stored under
  its own location name.
\<close>

definition keyed_by_location_name :: "workspace \<Rightarrow> bool" where
  "keyed_by_location_name d =
     (distinct (dict_keys d) \<and> list_all (\<lambda>(n, h). handle_location_name h = n) d)"

subsection \<open>Collaborators and traces\<close>

text \<open>
  The calls that leave load.py for the target loader (\<^verbatim>\<open>def_from_pointer\<close>,
  \<^verbatim>\<open>loadable_targets_from_python_file\<close>/\<^verbatim>\<open>_module\<close>/\<^verbatim>\<open>_package\<close>) and for the remote lister
  (\<^verbatim>\<open>sync_list_repositories\<close>, \<^verbatim>\<open>sync_list_repositories_ephemeral_grpc\<close>, with the
  arguments \<^verbatim>\<open>executable_path\<close>, \<^verbatim>\<open>python_file\<close>, \<^verbatim>\<open>module_name\<close>, \<^verbatim>\<open>working_directory\<close>).
\<close>

datatype event =
    DefFromPointer CodePointer
  | LoadableTargetsFromPythonFile string "string option"
  | LoadableTargetsFromPythonModule string
  | LoadableTargetsFromPythonPackage string
  | SyncListRepositories string "string option" "string option" "string option"
  | SyncListRepositoriesEphemeralGrpc string "string option" "string option" "string option"

fun is_remote_listing :: "event \<Rightarrow> bool" where
  "is_remote_listing (SyncListRepositories _ _ _ _) = True"
| "is_remote_listing (SyncListRepositoriesEphemeralGrpc _ _ _ _) = True"
| "is_remote_listing _ = False"

fun is_subprocess_listing :: "event \<Rightarrow> bool" where
  "is_subprocess_listing (SyncListRepositories _ _ _ _) = True"
| "is_subprocess_listing _ = False"

fun is_rpc_listing :: "event \<Rightarrow> bool" where
  "is_rpc_listing (SyncListRepositoriesEphemeralGrpc _ _ _ _) = True"
| "is_rpc_listing _ = False"

text \<open>The event of one call of the remote lister: the RPC variant for \<open>GRPC\<close>, the plain
  subprocess variant otherwise.\<close>

definition remote_listing_event ::
  "RepositoryLocationApi \<Rightarrow> string \<Rightarrow> string option \<Rightarrow> string option \<Rightarrow> string option \<Rightarrow> event" where
  "remote_listing_event api executable_path python_file module_name working_directory =
     (if api = GRPC
      then SyncListRepositoriesEphemeralGrpc executable_path python_file module_name
             working_directory
      else SyncListRepositories executable_path python_file module_name working_directory)"

text \<open>
  The collaborators are parameters of the model: what they return is not decided by
  load.py. \<open>out_of_process_default_api\<close> is the default of the keyword \<^verbatim>\<open>api\<close> of
  \<^verbatim>\<open>create_out_of_process_location\<close>, which applies when a caller omits the keyword.
\<close>

record env =
  load_yaml_from_path :: "string \<Rightarrow> error + WorkspaceConfig"
  ensure_workspace_config :: "WorkspaceConfig \<Rightarrow> string \<Rightarrow> error option"
  def_from_pointer :: "CodePointer \<Rightarrow> error + RepositoryDefinition"
  loadable_targets_from_python_file :: "string \<Rightarrow> string option \<Rightarrow> error + LoadableTarget list"
  loadable_targets_from_python_module :: "string \<Rightarrow> error + LoadableTarget list"
  loadable_targets_from_python_package :: "string \<Rightarrow> error + LoadableTarget list"
  sync_list_repositories ::
    "string \<Rightarrow> string option \<Rightarrow> string option \<Rightarrow> string option \<Rightarrow>
     error + LoadableRepositorySymbol list"
  sync_list_repositories_ephemeral_grpc ::
    "string \<Rightarrow> string option \<Rightarrow> string option \<Rightarrow> string option \<Rightarrow>
     error + LoadableRepositorySymbol list"
  expanduser :: "string \<Rightarrow> string"
  out_of_process_default_api :: RepositoryLocationApi

text \<open>
  A computation returns the trace of the calls it made and its result or the exception
  that ended it.
\<close>

type_synonym 'a traced = "event list \<times> (error + 'a)"

definition traced_return :: "'a \<Rightarrow> 'a traced" where
  "traced_return x = ([], Inr x)"

definition traced_raise :: "error \<Rightarrow> 'a traced" where
  "traced_raise e = ([], Inl e)"

definition traced_lift :: "error + 'a \<Rightarrow> 'a traced" where
  "traced_lift r = ([], r)"

definition traced_call :: "event \<Rightarrow> error + 'a \<Rightarrow> 'a traced" where
  "traced_call ev r = ([ev], r)"

definition traced_bind :: "'a traced \<Rightarrow> ('a \<Rightarrow> 'b traced) \<Rightarrow> 'b traced" where
  "traced_bind m f =
     (case m of
        (t, Inl e) \<Rightarrow> (t, Inl e)
      | (t, Inr x) \<Rightarrow> (case f x of (t', r) \<Rightarrow> (t @ t', r)))"

fun traced_map :: "('a \<Rightarrow> 'b traced) \<Rightarrow> 'a list \<Rightarrow> 'b list traced" where
  "traced_map f [] = traced_return []"
| "traced_map f (x # xs) =
     traced_bind (f x) (\<lambda>y. traced_bind (traced_map f xs) (\<lambda>ys. traced_return (y # ys)))"

subsection \<open>Paths\<close>

text \<open>
  Modelled from the spec: \<open>rebase_file\<close> (\<^verbatim>\<open>dagster.core.code_pointer\<close>) is not in load.py.
  The spec (section 4.1) says: a relative path is resolved relative to the directory
  containing the workspace document, never relative to the process's current
  directory; an absolute path passes through unchanged. \<open>dirname\<close> is the directory
  part of a POSIX path (the text before its last slash, without trailing slashes unless
  it is the root), and \<open>path_join\<close> puts one slash between a directory and a relative
  path.
\<close>

definition is_absolute :: "string \<Rightarrow> bool" where
  "is_absolute p = (case p of [] \<Rightarrow> False | c # _ \<Rightarrow> c = CHR ''/'')"

definition dirname :: "string \<Rightarrow> string" where
  "dirname p =
     (let head = rev (dropWhile (\<lambda>c. c \<noteq> CHR ''/'') (rev p))
      in if head \<noteq> [] \<and> \<not> list_all (\<lambda>c. c = CHR ''/'') head
         then rev (dropWhile (\<lambda>c. c = CHR ''/'') (rev head))
         else head)"

definition path_join :: "string \<Rightarrow> string \<Rightarrow> string" where
  "path_join a b =
     (if is_absolute b then b
      else if a = [] \<or> last a = CHR ''/'' then a @ b
      else a @ ''/'' @ b)"

definition rebase_file :: "string \<Rightarrow> string \<Rightarrow> string" where
  "rebase_file relative_path_in_file file_path_resides_in =
     path_join (dirname file_path_resides_in) relative_path_in_file"

subsection \<open>Reading target configs\<close>

fun get_module_config_data ::
  "PythonModuleConfig \<Rightarrow> string \<times> string option \<times> string option" where
  "get_module_config_data (ModuleStr python_module_config) = (python_module_config, None, None)"
| "get_module_config_data (ModuleDict module_name attribute location_name) =
     (module_name, attribute, location_name)"

fun get_package_config_data ::
  "PythonPackageConfig \<Rightarrow> string \<times> string option \<times> string option" where
  "get_package_config_data (PackageStr python_package_config) =
     (python_package_config, None, None)"
| "get_package_config_data (PackageDict package_name attribute location_name) =
     (package_name, attribute, location_name)"

fun get_python_file_config_data ::
  "PythonFileConfig \<Rightarrow> string \<Rightarrow> string \<times> string option \<times> string option \<times> string option" where
  "get_python_file_config_data (FileStr python_file_config) yaml_path =
     (rebase_file python_file_config yaml_path, None, None, None)"
| "get_python_file_config_data (FileDict relative_path attribute location_name working_directory)
       yaml_path =
     (rebase_file relative_path yaml_path, attribute, location_name,
      (case if_truthy working_directory of
         Some wd \<Rightarrow> Some (rebase_file wd yaml_path)
       | None \<Rightarrow> None))"

fun is_target_config :: "'a TargetConfig_scheme \<Rightarrow> bool" where
  "is_target_config potential_target_config =
     (truthy_file_config (tc_python_file potential_target_config) \<noteq> None
      \<or> truthy_module_config (tc_python_module potential_target_config) \<noteq> None
      \<or> truthy_package_config (tc_python_package potential_target_config) \<noteq> None)"

subsection \<open>Naming\<close>

text \<open>
  \<^verbatim>\<open>next(iter(d.keys()))\<close> is the first key of the dict, and raises \<open>StopIteration\<close> on an
  empty dict.
\<close>

definition assign_location_name ::
  "string option \<Rightarrow> (string, CodePointer) dict \<Rightarrow> error + string" where
  "assign_location_name location_name repository_code_pointer_dict =
     (case if_truthy location_name of
        Some n \<Rightarrow> Inr n
      | None \<Rightarrow>
          if length repository_code_pointer_dict > 1 then Inl ambiguous_location_name
          else (case dict_keys repository_code_pointer_dict of
                  [] \<Rightarrow> Inl StopIteration
                | k # _ \<Rightarrow> Inr k))"

definition assign_grpc_location_name ::
  "int option \<Rightarrow> string option \<Rightarrow> string \<Rightarrow> error + string" where
  "assign_grpc_location_name port socket host =
     (if \<not> (truthy_int port \<or> truthy_str socket) then Inl (CheckError [])
      else Inr (''grpc:'' @ host @ '':'' @
                (case if_truthy socket of
                   Some s \<Rightarrow> s
                 | None \<Rightarrow> (case port of Some p \<Rightarrow> str_int p | None \<Rightarrow> ''None''))))"

subsection \<open>Handle factories\<close>

text \<open>
  Modelled from the spec: \<^verbatim>\<open>create_out_of_process_location\<close> and
  \<^verbatim>\<open>create_grpc_server_location\<close> are not in load.py; they emit the handle of their
  strategy from the arguments they are given. The keyword \<^verbatim>\<open>api\<close> of the former is
  optional (\<open>None\<close> when the caller omits it, as the package builder does).
\<close>

definition create_out_of_process_location ::
  "env \<Rightarrow> (string, CodePointer) dict \<Rightarrow> string \<Rightarrow> RepositoryLocationApi option \<Rightarrow>
   RepositoryLocationHandle" where
  "create_out_of_process_location env repository_code_pointer_dict location_name api =
     OutOfProcessRepositoryLocationHandle location_name repository_code_pointer_dict
       (case api of Some a \<Rightarrow> a | None \<Rightarrow> out_of_process_default_api env)"

definition create_grpc_server_location ::
  "int option \<Rightarrow> string option \<Rightarrow> string \<Rightarrow> string \<Rightarrow> RepositoryLocationHandle" where
  "create_grpc_server_location port socket host location_name =
     GrpcServerRepositoryLocationHandle port socket host location_name"

text \<open>
  Modelled from the spec: \<^verbatim>\<open>create_python_env_location\<close> is not in load.py, which hands it
  the optional location name of the entry as it is. The spec (section 4.3) has every
  strategy resolve the location name by the naming contract of section 4.4 before the
  handle is emitted, and (section 3) every handle carry a name; so the factory names the
  handle by \<open>assign_location_name\<close>.
\<close>

definition create_python_env_location ::
  "string \<Rightarrow> string option \<Rightarrow> (string, CodePointer) dict \<Rightarrow> RepositoryLocationApi \<Rightarrow>
   error + RepositoryLocationHandle" where
  "create_python_env_location executable_path location_name repository_code_pointer_dict api =
     (case assign_location_name location_name repository_code_pointer_dict of
        Inl e \<Rightarrow> Inl e
      | Inr n \<Rightarrow> Inr (PythonEnvRepositoryLocationHandle executable_path n
                        repository_code_pointer_dict api))"

text \<open>
  Modelled from the spec: \<^verbatim>\<open>create_in_process_location\<close> is not in load.py. The spec
  (section 4.3) builds a single-entry handle directly from the legacy-format pointer,
  with no discovery step; the key of the entry is the name the repository at the
  pointer reports (section 3), and the location is named by section 4.4.
\<close>

definition create_in_process_location ::
  "env \<Rightarrow> CodePointer \<Rightarrow> RepositoryLocationHandle traced" where
  "create_in_process_location env pointer =
     traced_bind (traced_call (DefFromPointer pointer) (def_from_pointer env pointer))
       (\<lambda>repo_def.
          let repository_code_pointer_dict = [(definition_name repo_def, pointer)]
          in traced_bind (traced_lift (assign_location_name None repository_code_pointer_dict))
               (\<lambda>n. traced_return
                      (InProcessRepositoryLocationHandle n repository_code_pointer_dict)))"

subsection \<open>Bare targets: modules, packages and files\<close>

definition load_def_in_module :: "env \<Rightarrow> string \<Rightarrow> string \<Rightarrow> RepositoryDefinition traced" where
  "load_def_in_module env module_name attribute =
     traced_call (DefFromPointer (from_module module_name attribute))
       (def_from_pointer env (from_module module_name attribute))"

definition load_def_in_package :: "env \<Rightarrow> string \<Rightarrow> string \<Rightarrow> RepositoryDefinition traced" where
  "load_def_in_package env package_name attribute =
     traced_call (DefFromPointer (from_python_package package_name attribute))
       (def_from_pointer env (from_python_package package_name attribute))"

definition load_def_in_python_file ::
  "env \<Rightarrow> string \<Rightarrow> string \<Rightarrow> string option \<Rightarrow> RepositoryDefinition traced" where
  "load_def_in_python_file env python_file attribute working_directory =
     traced_call (DefFromPointer (from_python_file python_file attribute working_directory))
       (def_from_pointer env (from_python_file python_file attribute working_directory))"

text \<open>
  The loop over the loadable targets stores one pointer under the name each target's
  definition reports; \<open>pointer_of\<close> builds the pointer from the target's attribute.
\<close>

definition repository_code_pointer_dict_of ::
  "(string \<Rightarrow> CodePointer) \<Rightarrow> LoadableTarget list \<Rightarrow> (string, CodePointer) dict" where
  "repository_code_pointer_dict_of pointer_of loadable_targets =
     fold (\<lambda>loadable_target d.
             dict_set d (definition_name (target_definition loadable_target))
               (pointer_of (target_attribute loadable_target)))
       loadable_targets []"

definition module_loadable_targets ::
  "env \<Rightarrow> string \<Rightarrow> string option \<Rightarrow> LoadableTarget list traced" where
  "module_loadable_targets env module_name attribute =
     (case if_truthy attribute of
        Some a \<Rightarrow>
          traced_bind (load_def_in_module env module_name a)
            (\<lambda>d. traced_return [LoadableTarget a d])
      | None \<Rightarrow>
          traced_call (LoadableTargetsFromPythonModule module_name)
            (loadable_targets_from_python_module env module_name))"

definition location_handle_from_module_name ::
  "env \<Rightarrow> string \<Rightarrow> string option \<Rightarrow> RepositoryLocationApi \<Rightarrow> string option \<Rightarrow>
   RepositoryLocationHandle traced" where
  "location_handle_from_module_name env module_name attribute api location_name =
     traced_bind (module_loadable_targets env module_name attribute)
       (\<lambda>loadable_targets.
          let repository_code_pointer_dict =
                repository_code_pointer_dict_of (from_module module_name) loadable_targets
          in traced_bind
               (traced_lift (assign_location_name location_name repository_code_pointer_dict))
               (\<lambda>n. traced_return
                      (create_out_of_process_location env repository_code_pointer_dict n
                         (Some api))))"

definition location_handle_from_module_config ::
  "env \<Rightarrow> PythonModuleConfig \<Rightarrow> RepositoryLocationApi \<Rightarrow> RepositoryLocationHandle traced" where
  "location_handle_from_module_config env python_module_config api =
     (case get_module_config_data python_module_config of
        (module_name, attribute, location_name) \<Rightarrow>
          location_handle_from_module_name env module_name attribute api location_name)"

definition package_loadable_targets ::
  "env \<Rightarrow> string \<Rightarrow> string option \<Rightarrow> LoadableTarget list traced" where
  "package_loadable_targets env package_name attribute =
     (case if_truthy attribute of
        Some a \<Rightarrow>
          traced_bind (load_def_in_package env package_name a)
            (\<lambda>d. traced_return [LoadableTarget a d])
      | None \<Rightarrow>
          traced_call (LoadableTargetsFromPythonPackage package_name)
            (loadable_targets_from_python_package env package_name))"

text \<open>
  \<open>location_handle_from_package_name\<close> takes \<open>api\<close> and checks its type, but calls
  \<^verbatim>\<open>create_out_of_process_location\<close> without the keyword \<^verbatim>\<open>api\<close>.
\<close>

definition location_handle_from_package_name ::
  "env \<Rightarrow> string \<Rightarrow> string option \<Rightarrow> RepositoryLocationApi \<Rightarrow> string option \<Rightarrow>
   RepositoryLocationHandle traced" where
  "location_handle_from_package_name env package_name attribute api location_name =
     traced_bind (package_loadable_targets env package_name attribute)
       (\<lambda>loadable_targets.
          let repository_code_pointer_dict =
                repository_code_pointer_dict_of (from_python_package package_name)
                  loadable_targets
          in traced_bind
               (traced_lift (assign_location_name location_name repository_code_pointer_dict))
               (\<lambda>n. traced_return
                      (create_out_of_process_location env repository_code_pointer_dict n None)))"

definition location_handle_from_package_config ::
  "env \<Rightarrow> PythonPackageConfig \<Rightarrow> RepositoryLocationApi \<Rightarrow> RepositoryLocationHandle traced" where
  "location_handle_from_package_config env python_module_config api =
     (case get_package_config_data python_module_config of
        (module_name, attribute, location_name) \<Rightarrow>
          location_handle_from_package_name env module_name attribute api location_name)"

definition python_file_loadable_targets ::
  "env \<Rightarrow> string \<Rightarrow> string option \<Rightarrow> string option \<Rightarrow> LoadableTarget list traced" where
  "python_file_loadable_targets env python_file attribute working_directory =
     (case if_truthy attribute of
        Some a \<Rightarrow>
          traced_bind (load_def_in_python_file env python_file a working_directory)
            (\<lambda>d. traced_return [LoadableTarget a d])
      | None \<Rightarrow>
          traced_call (LoadableTargetsFromPythonFile python_file working_directory)
            (loadable_targets_from_python_file env python_file working_directory))"

definition location_handle_from_python_file ::
  "env \<Rightarrow> string \<Rightarrow> string option \<Rightarrow> RepositoryLocationApi \<Rightarrow> string option \<Rightarrow>
   string option \<Rightarrow> RepositoryLocationHandle traced" where
  "location_handle_from_python_file env python_file attribute api location_name
       working_directory =
     traced_bind (python_file_loadable_targets env python_file attribute working_directory)
       (\<lambda>loadable_targets.
          let repository_code_pointer_dict =
                repository_code_pointer_dict_of
                  (\<lambda>a. from_python_file python_file a working_directory) loadable_targets
          in traced_bind
               (traced_lift (assign_location_name location_name repository_code_pointer_dict))
               (\<lambda>n. traced_return
                      (create_out_of_process_location env repository_code_pointer_dict n
                         (Some api))))"

definition location_handle_from_python_file_config ::
  "env \<Rightarrow> PythonFileConfig \<Rightarrow> string \<Rightarrow> RepositoryLocationApi \<Rightarrow>
   RepositoryLocationHandle traced" where
  "location_handle_from_python_file_config env python_file_config yaml_path api =
     (case get_python_file_config_data python_file_config yaml_path of
        (absolute_path, attribute, location_name, working_directory) \<Rightarrow>
          location_handle_from_python_file env absolute_path attribute api location_name
            working_directory)"

text \<open>
  \<open>location_handle_from_target_config\<close> tests the presence of the keys
  (\<^verbatim>\<open>'python_file' in target_config\<close>), after \<open>is_target_config\<close> has tested their values.
\<close>

definition location_handle_from_target_config ::
  "env \<Rightarrow> 'a TargetConfig_scheme \<Rightarrow> string \<Rightarrow> RepositoryLocationApi \<Rightarrow>
   RepositoryLocationHandle traced" where
  "location_handle_from_target_config env target_config yaml_path api =
     (if \<not> is_target_config target_config then traced_raise (CheckError ''target_config'')
      else case tc_python_file target_config of
        Some python_file_config \<Rightarrow>
          location_handle_from_python_file_config env python_file_config yaml_path api
      | None \<Rightarrow>
          (case tc_python_module target_config of
             Some python_module_config \<Rightarrow>
               location_handle_from_module_config env python_module_config api
           | None \<Rightarrow>
               (case tc_python_package target_config of
                  Some python_package_config \<Rightarrow>
                    location_handle_from_package_config env python_package_config api
                | None \<Rightarrow> traced_raise (CheckError ''invalid target_config''))))"

subsection \<open>Remote listing and python environments\<close>

definition list_repositories ::
  "env \<Rightarrow> string \<Rightarrow> string option \<Rightarrow> string option \<Rightarrow> string option \<Rightarrow>
   RepositoryLocationApi \<Rightarrow> LoadableRepositorySymbol list traced" where
  "list_repositories env executable_path python_file module_name working_directory api =
     (if api = GRPC
      then traced_call
             (SyncListRepositoriesEphemeralGrpc executable_path python_file module_name
                working_directory)
             (sync_list_repositories_ephemeral_grpc env executable_path python_file module_name
                working_directory)
      else traced_call
             (SyncListRepositories executable_path python_file module_name working_directory)
             (sync_list_repositories env executable_path python_file module_name
                working_directory))"

text \<open>
  The dict comprehension over \<^verbatim>\<open>response.repository_symbols\<close> stores one pointer under
  the \<^verbatim>\<open>attribute\<close> of each symbol.
\<close>

definition symbols_code_pointer_dict ::
  "(string \<Rightarrow> CodePointer) \<Rightarrow> LoadableRepositorySymbol list \<Rightarrow> (string, CodePointer) dict" where
  "symbols_code_pointer_dict pointer_of repository_symbols =
     fold (\<lambda>lrs d. dict_set d (symbol_attribute lrs) (pointer_of (symbol_attribute lrs)))
       repository_symbols []"

definition python_environment_file ::
  "env \<Rightarrow> string \<Rightarrow> PythonFileConfig \<Rightarrow> string \<Rightarrow> RepositoryLocationApi \<Rightarrow>
   RepositoryLocationHandle traced" where
  "python_environment_file env executable_path python_file_config yaml_path api =
     (case get_python_file_config_data python_file_config yaml_path of
        (absolute_path, attribute, location_name, working_directory) \<Rightarrow>
          (case if_truthy attribute of
             None \<Rightarrow>
               traced_bind
                 (list_repositories env executable_path (Some absolute_path) None None api)
                 (\<lambda>repository_symbols.
                    traced_lift
                      (create_python_env_location executable_path location_name
                         (symbols_code_pointer_dict
                            (\<lambda>a. from_python_file absolute_path a working_directory)
                            repository_symbols)
                         api))
           | Some a \<Rightarrow>
               traced_lift
                 (create_python_env_location executable_path location_name
                    [(a, from_python_file absolute_path a working_directory)] api)))"

definition python_environment_module ::
  "env \<Rightarrow> string \<Rightarrow> PythonModuleConfig \<Rightarrow> RepositoryLocationApi \<Rightarrow>
   RepositoryLocationHandle traced" where
  "python_environment_module env executable_path python_module_config api =
     (case get_module_config_data python_module_config of
        (module_name, attribute, location_name) \<Rightarrow>
          (case if_truthy attribute of
             None \<Rightarrow>
               traced_bind
                 (list_repositories env executable_path None (Some module_name) None api)
                 (\<lambda>repository_symbols.
                    traced_lift
                      (create_python_env_location executable_path location_name
                         (symbols_code_pointer_dict (from_module module_name)
                            repository_symbols)
                         api))
           | Some a \<Rightarrow>
               traced_lift
                 (create_python_env_location executable_path location_name
                    [(a, from_module module_name a)] api)))"

definition python_environment_package ::
  "env \<Rightarrow> string \<Rightarrow> PythonPackageConfig \<Rightarrow> RepositoryLocationApi \<Rightarrow>
   RepositoryLocationHandle traced" where
  "python_environment_package env executable_path python_package_config api =
     (case get_package_config_data python_package_config of
        (package_name, attribute, location_name) \<Rightarrow>
          (case if_truthy attribute of
             None \<Rightarrow>
               traced_bind
                 (list_repositories env executable_path None (Some package_name) None api)
                 (\<lambda>repository_symbols.
                    traced_lift
                      (create_python_env_location executable_path location_name
                         (symbols_code_pointer_dict (from_python_package package_name)
                            repository_symbols)
                         api))
           | Some a \<Rightarrow>
               traced_lift
                 (create_python_env_location executable_path location_name
                    [(a, from_python_package package_name a)] api)))"

text \<open>
  \<open>location_handle_from_python_environment_config\<close> tests the values of the three keys
  of the nested target in turn; its three branches are the three functions above.
\<close>

definition location_handle_from_python_environment_config ::
  "env \<Rightarrow> PythonEnvironmentConfig \<Rightarrow> string \<Rightarrow> RepositoryLocationApi \<Rightarrow>
   RepositoryLocationHandle traced" where
  "location_handle_from_python_environment_config env python_environment_config yaml_path api =
     (let executable_path = expanduser env (pe_executable_path python_environment_config);
          target_config = pe_target python_environment_config
      in if \<not> is_target_config target_config then traced_raise (CheckError [])
         else case truthy_file_config (tc_python_file target_config) of
           Some python_file_config \<Rightarrow>
             python_environment_file env executable_path python_file_config yaml_path api
         | None \<Rightarrow>
             (case truthy_module_config (tc_python_module target_config) of
                Some python_module_config \<Rightarrow>
                  python_environment_module env executable_path python_module_config api
              | None \<Rightarrow>
                  (case truthy_package_config (tc_python_package target_config) of
                     Some python_package_config \<Rightarrow>
                       python_environment_package env executable_path python_package_config api
                   | None \<Rightarrow> traced_raise (CheckError []))))"

subsection \<open>Server entries\<close>

definition location_handle_from_grpc_server_config ::
  "GrpcServerConfig \<Rightarrow> string \<Rightarrow> error + RepositoryLocationHandle" where
  "location_handle_from_grpc_server_config grpc_server_config yaml_path =
     (let port = grpc_port grpc_server_config;
          socket = grpc_socket grpc_server_config;
          host = grpc_host grpc_server_config;
          location_name = grpc_location_name grpc_server_config
      in if \<not> ((truthy_str socket \<or> truthy_int port) \<and> \<not> (truthy_str socket \<and> truthy_int port))
         then Inl (CheckError ''must supply either a socket or a port'')
         else
           let host = (case if_truthy host of Some h \<Rightarrow> h | None \<Rightarrow> ''localhost'')
           in case if_truthy location_name of
                Some n \<Rightarrow> Inr (create_grpc_server_location port socket host n)
              | None \<Rightarrow>
                  (case assign_grpc_location_name port socket host of
                     Inl e \<Rightarrow> Inl e
                   | Inr n \<Rightarrow> Inr (create_grpc_server_location port socket host n)))"

subsection \<open>Location entries, documents and merging\<close>

definition api_of_opt_ins :: "string set \<Rightarrow> RepositoryLocationApi" where
  "api_of_opt_ins opt_ins = (if ''grpc'' \<in> opt_ins then GRPC else CLI)"

text \<open>
  The message of \<^verbatim>\<open>check.not_implemented\<close> also prints the entry; the model keeps its
  fixed part.
\<close>

definition location_handle_from_location_config ::
  "env \<Rightarrow> LocationConfig \<Rightarrow> string \<Rightarrow> string set \<Rightarrow> RepositoryLocationHandle traced" where
  "location_handle_from_location_config env location_config yaml_path opt_ins =
     (let api = api_of_opt_ins opt_ins
      in if is_target_config location_config
         then location_handle_from_target_config env location_config yaml_path api
         else case lc_grpc_server location_config of
           Some grpc_server_config \<Rightarrow>
             traced_lift (location_handle_from_grpc_server_config grpc_server_config yaml_path)
         | None \<Rightarrow>
             (case lc_python_environment location_config of
                Some python_environment_config \<Rightarrow>
                  location_handle_from_python_environment_config env python_environment_config
                    yaml_path api
              | None \<Rightarrow>
                  traced_raise (NotImplementedCheckError ''Unsupported location config'')))"

text \<open>
  \<open>opt_ins_of\<close> is the set built from the key \<^verbatim>\<open>opt_in\<close> of the document (empty when the
  key is absent or its list is empty). The deprecation warning of the legacy format is
  not modelled.
\<close>

definition opt_ins_of :: "WorkspaceConfig \<Rightarrow> string set" where
  "opt_ins_of workspace_config =
     (case wc_opt_in workspace_config of Some l \<Rightarrow> set l | None \<Rightarrow> {})"

definition load_workspace_from_config ::
  "env \<Rightarrow> WorkspaceConfig \<Rightarrow> string \<Rightarrow> workspace traced" where
  "load_workspace_from_config env workspace_config yaml_path =
     (case ensure_workspace_config env workspace_config yaml_path of
        Some e \<Rightarrow> traced_raise e
      | None \<Rightarrow>
          (case wc_repository workspace_config of
             Some _ \<Rightarrow>
               traced_bind
                 (create_in_process_location env (from_legacy_repository_yaml yaml_path))
                 (\<lambda>h. traced_return (Workspace [h]))
           | None \<Rightarrow>
               (case wc_load_from workspace_config of
                  None \<Rightarrow> traced_raise (KeyError ''load_from'')
                | Some location_configs \<Rightarrow>
                    traced_bind
                      (traced_map
                         (\<lambda>location_config.
                            location_handle_from_location_config env location_config yaml_path
                              (opt_ins_of workspace_config))
                         location_configs)
                      (\<lambda>location_handles. traced_return (Workspace location_handles)))))"

text \<open>
  The merge of \<open>load_workspace_from_yaml_paths\<close>: for every workspace, in order, and
  every location name of it, in order, the handle of the name is stored under the name.
\<close>

fun collect_location_handles ::
  "workspace \<Rightarrow> string list \<Rightarrow> (string, RepositoryLocationHandle) dict \<Rightarrow>
   error + (string, RepositoryLocationHandle) dict" where
  "collect_location_handles w [] d = Inr d"
| "collect_location_handles w (repository_location_name # names) d =
     (case get_repository_location_handle w repository_location_name of
        Inl e \<Rightarrow> Inl e
      | Inr h \<Rightarrow> collect_location_handles w names (dict_set d repository_location_name h))"

fun repository_location_handles_dict_of ::
  "workspace list \<Rightarrow> (string, RepositoryLocationHandle) dict \<Rightarrow>
   error + (string, RepositoryLocationHandle) dict" where
  "repository_location_handles_dict_of [] d = Inr d"
| "repository_location_handles_dict_of (w # workspaces) d =
     (case collect_location_handles w (repository_location_names w) d of
        Inl e \<Rightarrow> Inl e
      | Inr d' \<Rightarrow> repository_location_handles_dict_of workspaces d')"

definition load_workspace_from_yaml_paths :: "env \<Rightarrow> string list \<Rightarrow> workspace traced" where
  "load_workspace_from_yaml_paths env yaml_paths =
     traced_bind (traced_map (\<lambda>yaml_path. traced_lift (load_yaml_from_path env yaml_path)) yaml_paths)
       (\<lambda>workspace_configs.
          traced_bind
            (traced_map
               (\<lambda>(workspace_config, yaml_path).
                  load_workspace_from_config env workspace_config yaml_path)
               (zip workspace_configs yaml_paths))
            (\<lambda>workspaces.
               traced_bind (traced_lift (repository_location_handles_dict_of workspaces []))
                 (\<lambda>repository_location_handles_dict.
                    traced_return (Workspace (dict_values repository_location_handles_dict)))))"

text \<open>
  What a merge of workspaces holds for a name, as the spec states it (section 4.5): the
  handle of the last workspace that has the name.
\<close>

fun merged_lookup :: "workspace list \<Rightarrow> string \<Rightarrow> RepositoryLocationHandle option" where
  "merged_lookup [] n = None"
| "merged_lookup (w # workspaces) n =
     (case merged_lookup workspaces n of Some h \<Rightarrow> Some h | None \<Rightarrow> map_of w n)"

subsection \<open>Example collaborators and documents\<close>

text \<open>
  A concrete environment for evaluating the model: the file \<^verbatim>\<open>/ws/many.py\<close> and the module
  or package \<^verbatim>\<open>pkg.many\<close> expose two repositories, \<open>alpha\<close> at the attribute \<open>repo_a\<close> and
  \<open>beta\<close> at \<open>repo_b\<close>; every other target exposes the repository \<open>prod\<close> at the
  attribute \<open>my_repo\<close>.
\<close>

definition example_one_target :: "LoadableTarget list" where
  "example_one_target = [LoadableTarget ''my_repo'' (RepositoryDefinition ''prod'')]"

definition example_two_targets :: "LoadableTarget list" where
  "example_two_targets =
     [LoadableTarget ''repo_a'' (RepositoryDefinition ''alpha''),
      LoadableTarget ''repo_b'' (RepositoryDefinition ''beta'')]"

definition example_one_symbol :: "LoadableRepositorySymbol list" where
  "example_one_symbol = [LoadableRepositorySymbol ''prod'' ''my_repo'']"

definition example_two_symbols :: "LoadableRepositorySymbol list" where
  "example_two_symbols =
     [LoadableRepositorySymbol ''alpha'' ''repo_a'', LoadableRepositorySymbol ''beta'' ''repo_b'']"

definition example_lister ::
  "string \<Rightarrow> string option \<Rightarrow> string option \<Rightarrow> string option \<Rightarrow>
   error + LoadableRepositorySymbol list" where
  "example_lister executable_path python_file module_name working_directory =
     (if python_file = Some ''/ws/many.py'' \<or> module_name = Some ''pkg.many''
      then Inr example_two_symbols else Inr example_one_symbol)"

definition example_env :: env where
  "example_env =
     \<lparr> load_yaml_from_path = (\<lambda>p. Inl (SchemaError p)),
       ensure_workspace_config = (\<lambda>c p. None),
       def_from_pointer = (\<lambda>p. Inr (RepositoryDefinition ''prod'')),
       loadable_targets_from_python_file =
         (\<lambda>f wd. if f = ''/ws/many.py'' then Inr example_two_targets else Inr example_one_target),
       loadable_targets_from_python_module =
         (\<lambda>m. if m = ''pkg.many'' then Inr example_two_targets else Inr example_one_target),
       loadable_targets_from_python_package =
         (\<lambda>m. if m = ''pkg.many'' then Inr example_two_targets else Inr example_one_target),
       sync_list_repositories = example_lister,
       sync_list_repositories_ephemeral_grpc = example_lister,
       expanduser = (\<lambda>p. case p of [] \<Rightarrow> [] | c # r \<Rightarrow> if c = CHR ''~'' then ''/home/user'' @ r else p),
       out_of_process_default_api = CLI \<rparr>"

definition example_pe_file :: PythonEnvironmentConfig where
  "example_pe_file =
     \<lparr> pe_executable_path = ''~/venv/bin/python'',
       pe_target = \<lparr> tc_python_file = Some (FileStr ''many.py''), tc_python_module = None,
                     tc_python_package = None \<rparr> \<rparr>"

definition example_pe_module :: PythonEnvironmentConfig where
  "example_pe_module =
     \<lparr> pe_executable_path = ''~/venv/bin/python'',
       pe_target = \<lparr> tc_python_file = None, tc_python_module = Some (ModuleStr ''pkg.many''),
                     tc_python_package = None \<rparr> \<rparr>"

definition example_pe_package :: PythonEnvironmentConfig where
  "example_pe_package =
     \<lparr> pe_executable_path = ''~/venv/bin/python'',
       pe_target = \<lparr> tc_python_file = None, tc_python_module = None,
                     tc_python_package = Some (PackageStr ''pkg.many'') \<rparr> \<rparr>"

definition example_pe_repo :: PythonEnvironmentConfig where
  "example_pe_repo =
     \<lparr> pe_executable_path = ''~/venv/bin/python'',
       pe_target = \<lparr> tc_python_file = Some (FileStr ''repo.py''), tc_python_module = None,
                     tc_python_package = None \<rparr> \<rparr>"

definition example_pe_file_wd :: PythonEnvironmentConfig where
  "example_pe_file_wd =
     \<lparr> pe_executable_path = ''~/venv/bin/python'',
       pe_target = \<lparr> tc_python_file = Some (FileDict ''repo.py'' None None (Some ''work'')),
                     tc_python_module = None, tc_python_package = None \<rparr> \<rparr>"

definition example_pe_file_attribute :: PythonEnvironmentConfig where
  "example_pe_file_attribute =
     \<lparr> pe_executable_path = ''~/venv/bin/python'',
       pe_target = \<lparr> tc_python_file = Some (FileDict ''repo.py'' (Some ''my_repo'') None None),
                     tc_python_module = None, tc_python_package = None \<rparr> \<rparr>"

definition example_pe_attribute :: PythonEnvironmentConfig where
  "example_pe_attribute =
     \<lparr> pe_executable_path = ''~/venv/bin/python'',
       pe_target = \<lparr> tc_python_file = None,
                     tc_python_module = Some (ModuleDict ''pkg.repo'' (Some ''my_repo'') None),
                     tc_python_package = None \<rparr> \<rparr>"

definition example_pe_package_attribute :: PythonEnvironmentConfig where
  "example_pe_package_attribute =
     \<lparr> pe_executable_path = ''~/venv/bin/python'',
       pe_target = \<lparr> tc_python_file = None, tc_python_module = None,
                     tc_python_package = Some (PackageDict ''pkg'' (Some ''my_repo'') None) \<rparr> \<rparr>"

definition example_pe_module_named :: PythonEnvironmentConfig where
  "example_pe_module_named =
     \<lparr> pe_executable_path = ''~/venv/bin/python'',
       pe_target = \<lparr> tc_python_file = None,
                     tc_python_module = Some (ModuleDict ''pkg.many'' None (Some ''many'')),
                     tc_python_package = None \<rparr> \<rparr>"

definition example_pe_package_named :: PythonEnvironmentConfig where
  "example_pe_package_named =
     \<lparr> pe_executable_path = ''~/venv/bin/python'',
       pe_target = \<lparr> tc_python_file = None, tc_python_module = None,
                     tc_python_package = Some (PackageDict ''pkg.many'' None (Some ''many'')) \<rparr> \<rparr>"

definition example_module_entry :: LocationConfig where
  "example_module_entry =
     \<lparr> tc_python_file = None, tc_python_module = Some (ModuleStr ''pkg.repo''),
       tc_python_package = None, lc_grpc_server = None, lc_python_environment = None \<rparr>"

definition example_package_entry :: LocationConfig where
  "example_package_entry =
     \<lparr> tc_python_file = None, tc_python_module = None,
       tc_python_package = Some (PackageStr ''pkg.repo''),
       lc_grpc_server = None, lc_python_environment = None \<rparr>"

definition example_pe_entry :: LocationConfig where
  "example_pe_entry =
     \<lparr> tc_python_file = None, tc_python_module = None, tc_python_package = None,
       lc_grpc_server = None, lc_python_environment = Some example_pe_repo \<rparr>"

definition example_rpc_document :: WorkspaceConfig where
  "example_rpc_document =
     \<lparr> wc_repository = None, wc_opt_in = Some [''grpc''],
       wc_load_from = Some [example_module_entry, example_pe_entry] \<rparr>"

definition example_cli_document :: WorkspaceConfig where
  "example_cli_document =
     \<lparr> wc_repository = None, wc_opt_in = None,
       wc_load_from = Some [example_module_entry, example_pe_entry] \<rparr>"

definition example_grpc_port_4000 :: GrpcServerConfig where
  "example_grpc_port_4000 =
     \<lparr> grpc_port = Some 4000, grpc_socket = None, grpc_host = None, grpc_location_name = None \<rparr>"

definition example_grpc_socket :: GrpcServerConfig where
  "example_grpc_socket =
     \<lparr> grpc_port = None, grpc_socket = Some ''/tmp/dagster.sock'', grpc_host = Some ''example.org'',
       grpc_location_name = Some [] \<rparr>"

definition example_grpc_port_and_socket :: GrpcServerConfig where
  "example_grpc_port_and_socket =
     \<lparr> grpc_port = Some 4000, grpc_socket = Some ''/tmp/dagster.sock'', grpc_host = None,
       grpc_location_name = None \<rparr>"

definition example_grpc_neither :: GrpcServerConfig where
  "example_grpc_neither =
     \<lparr> grpc_port = None, grpc_socket = None, grpc_host = Some ''example.org'',
       grpc_location_name = None \<rparr>"

definition example_grpc_zero_port_and_socket :: GrpcServerConfig where
  "example_grpc_zero_port_and_socket =
     \<lparr> grpc_port = Some 0, grpc_socket = Some ''/tmp/dagster.sock'', grpc_host = None,
       grpc_location_name = None \<rparr>"

definition example_document_a :: WorkspaceConfig where
  "example_document_a =
     \<lparr> wc_repository = None, wc_opt_in = None,
       wc_load_from = Some
         [\<lparr> tc_python_file = None, tc_python_module = None, tc_python_package = None,
            lc_grpc_server = Some \<lparr> grpc_port = Some 4000, grpc_socket = None, grpc_host = None,
                                    grpc_location_name = Some ''A'' \<rparr>,
            lc_python_environment = None \<rparr>] \<rparr>"

definition example_document_b :: WorkspaceConfig where
  "example_document_b =
     \<lparr> wc_repository = None, wc_opt_in = None,
       wc_load_from = Some
         [\<lparr> tc_python_file = None, tc_python_module = None, tc_python_package = None,
            lc_grpc_server = Some \<lparr> grpc_port = Some 5000, grpc_socket = None, grpc_host = None,
                                    grpc_location_name = Some ''A'' \<rparr>,
            lc_python_environment = None \<rparr>] \<rparr>"

definition example_merge_env :: env where
  "example_merge_env =
     example_env \<lparr> load_yaml_from_path :=
       (\<lambda>p. if p = ''/ws/a.yaml'' then Inr example_document_a
            else if p = ''/ws/b.yaml'' then Inr example_document_b
            else Inl (SchemaError p)) \<rparr>"

section \<open>Properties\<close>

subsection \<open>Dictionaries\<close>

lemma dict_keys_dict_set:
  "dict_keys (dict_set d k v) = (if k \<in> set (dict_keys d) then dict_keys d else dict_keys d @ [k])"
  by (induction d k v rule: dict_set.induct) (auto simp: dict_keys_def)

lemma distinct_dict_set: "distinct (dict_keys d) \<Longrightarrow> distinct (dict_keys (dict_set d k v))"
  by (simp add: dict_keys_dict_set)

lemma map_of_dict_set: "map_of (dict_set d k v) = (map_of d)(k \<mapsto> v)"
  by (induction d k v rule: dict_set.induct) (auto simp: fun_eq_iff)

lemma set_dict_keys_dict_set: "set (dict_keys (dict_set d k v)) = insert k (set (dict_keys d))"
  by (auto simp: dict_keys_dict_set)

lemma fold_dict_set_keys:
  "set (dict_keys (fold (\<lambda>x d. dict_set d (key x) (val x)) xs d0)) = set (dict_keys d0) \<union> key ` set xs"
  by (induction xs arbitrary: d0) (auto simp: set_dict_keys_dict_set)

lemma fold_dict_set_distinct:
  "distinct (dict_keys d0) \<Longrightarrow> distinct (dict_keys (fold (\<lambda>x d. dict_set d (key x) (val x)) xs d0))"
  by (induction xs arbitrary: d0) (auto simp: distinct_dict_set)

lemma length_dict_card: "distinct (dict_keys d) \<Longrightarrow> length d = card (set (dict_keys d))"
  by (metis dict_keys_def distinct_card length_map)

lemma repository_code_pointer_dict_of_keys:
  "set (dict_keys (repository_code_pointer_dict_of f ts)) = (definition_name \<circ> target_definition) ` set ts"
  unfolding repository_code_pointer_dict_of_def
  using fold_dict_set_keys[where key="definition_name \<circ> target_definition" and val="f \<circ> target_attribute" and xs=ts and ?d0.0="[]"]
  by (simp add: dict_keys_def)

lemma repository_code_pointer_dict_of_length:
  "length (repository_code_pointer_dict_of f ts) = card ((definition_name \<circ> target_definition) ` set ts)"
proof -
  have "distinct (dict_keys (repository_code_pointer_dict_of f ts))"
    unfolding repository_code_pointer_dict_of_def
    using fold_dict_set_distinct[where key="definition_name \<circ> target_definition" and val="f \<circ> target_attribute" and xs=ts and ?d0.0="[]"]
    by (simp add: dict_keys_def)
  then show ?thesis
    by (simp add: length_dict_card repository_code_pointer_dict_of_keys)
qed

lemma symbols_code_pointer_dict_length:
  "length (symbols_code_pointer_dict f ss) = card (symbol_attribute ` set ss)"
proof -
  have "distinct (dict_keys (symbols_code_pointer_dict f ss))"
    unfolding symbols_code_pointer_dict_def
    using fold_dict_set_distinct[where key="symbol_attribute" and val="f \<circ> symbol_attribute" and xs=ss and ?d0.0="[]"]
    by (simp add: dict_keys_def)
  moreover have "set (dict_keys (symbols_code_pointer_dict f ss)) = symbol_attribute ` set ss"
    unfolding symbols_code_pointer_dict_def
    using fold_dict_set_keys[where key="symbol_attribute" and val="f \<circ> symbol_attribute" and xs=ss and ?d0.0="[]"]
    by (simp add: dict_keys_def)
  ultimately show ?thesis
    by (simp add: length_dict_card)
qed

subsection \<open>Naming\<close>

lemma assign_location_name_ambiguous:
  "if_truthy location_name = None \<Longrightarrow> 1 < length d \<Longrightarrow> assign_location_name location_name d = Inl ambiguous_location_name"
  by (simp add: assign_location_name_def)

lemma module_ambiguous:
  assumes "if_truthy location_name = None" "if_truthy attribute = None"
    "loadable_targets_from_python_module env m = Inr ts"
    "1 < card ((definition_name \<circ> target_definition) ` set ts)"
  shows "snd (location_handle_from_module_name env m attribute api location_name) = Inl ambiguous_location_name"
  using assms
  by (simp add: location_handle_from_module_name_def module_loadable_targets_def traced_bind_def traced_call_def traced_lift_def
      assign_location_name_ambiguous repository_code_pointer_dict_of_length)



lemmas traced_defs = traced_bind_def traced_call_def traced_lift_def traced_return_def traced_raise_def

lemma package_ambiguous:
  assumes "if_truthy location_name = None" "if_truthy attribute = None"
    "loadable_targets_from_python_package env m = Inr ts"
    "1 < card ((definition_name \<circ> target_definition) ` set ts)"
  shows "snd (location_handle_from_package_name env m attribute api location_name) = Inl ambiguous_location_name"
  using assms
  by (simp add: location_handle_from_package_name_def package_loadable_targets_def traced_defs
      assign_location_name_ambiguous repository_code_pointer_dict_of_length)

lemma python_file_ambiguous:
  assumes "if_truthy location_name = None" "if_truthy attribute = None"
    "loadable_targets_from_python_file env f wd = Inr ts"
    "1 < card ((definition_name \<circ> target_definition) ` set ts)"
  shows "snd (location_handle_from_python_file env f attribute api location_name wd) = Inl ambiguous_location_name"
  using assms
  by (simp add: location_handle_from_python_file_def python_file_loadable_targets_def traced_defs
      assign_location_name_ambiguous repository_code_pointer_dict_of_length)

lemma create_python_env_location_ambiguous:
  "if_truthy location_name = None \<Longrightarrow> 1 < length d \<Longrightarrow>
   create_python_env_location exe location_name d api = Inl ambiguous_location_name"
  by (simp add: create_python_env_location_def assign_location_name_ambiguous)

lemma python_environment_file_ambiguous:
  assumes "if_truthy location_name = None" "if_truthy attribute = None"
    "get_python_file_config_data fc yaml = (absolute_path, attribute, location_name, wd)"
    "snd (list_repositories env exe (Some absolute_path) None None api) = Inr ss"
    "1 < card (symbol_attribute ` set ss)"
  shows "snd (python_environment_file env exe fc yaml api) = Inl ambiguous_location_name"
  using assms
  by (cases "list_repositories env exe (Some absolute_path) None None api")
     (simp add: python_environment_file_def traced_defs
      create_python_env_location_ambiguous symbols_code_pointer_dict_length)

lemma python_environment_module_ambiguous:
  assumes "if_truthy location_name = None" "if_truthy attribute = None"
    "get_module_config_data mc = (m, attribute, location_name)"
    "snd (list_repositories env exe None (Some m) None api) = Inr ss"
    "1 < card (symbol_attribute ` set ss)"
  shows "snd (python_environment_module env exe mc api) = Inl ambiguous_location_name"
  using assms
  by (cases "list_repositories env exe None (Some m) None api")
     (simp add: python_environment_module_def traced_defs
      create_python_env_location_ambiguous symbols_code_pointer_dict_length)

lemma python_environment_package_ambiguous:
  assumes "if_truthy location_name = None" "if_truthy attribute = None"
    "get_package_config_data mc = (m, attribute, location_name)"
    "snd (list_repositories env exe None (Some m) None api) = Inr ss"
    "1 < card (symbol_attribute ` set ss)"
  shows "snd (python_environment_package env exe mc api) = Inl ambiguous_location_name"
  using assms
  by (cases "list_repositories env exe None (Some m) None api")
     (simp add: python_environment_package_def traced_defs
      create_python_env_location_ambiguous symbols_code_pointer_dict_length)


text \<open>
  C1. An entry with no explicit location name (absent or empty) whose discovery yields
  more than one repository fails with the error the spec calls
  AmbiguousLocationNameError. Repositories are counted by the keys of the mapping that
  is built from the discovery: the names the discovered definitions report for a bare
  module, package or file, and the attributes the remote lister reports for a
  \<^verbatim>\<open>python_environment\<close> entry with a file, module or package target. For the latter the
  check is made by \<open>create_python_env_location\<close>, which is modelled from the spec.
\<close>

theorem ambiguous_location_name_fails:
  assumes "if_truthy location_name = None" and "if_truthy attribute = None"
  shows
    "(loadable_targets_from_python_module env mname = Inr ts
        \<and> 1 < card ((definition_name \<circ> target_definition) ` set ts) \<longrightarrow>
      snd (location_handle_from_module_name env mname attribute api location_name)
        = Inl ambiguous_location_name)
   \<and> (loadable_targets_from_python_package env pname = Inr ts
        \<and> 1 < card ((definition_name \<circ> target_definition) ` set ts) \<longrightarrow>
      snd (location_handle_from_package_name env pname attribute api location_name)
        = Inl ambiguous_location_name)
   \<and> (loadable_targets_from_python_file env python_file working_directory = Inr ts
        \<and> 1 < card ((definition_name \<circ> target_definition) ` set ts) \<longrightarrow>
      snd (location_handle_from_python_file env python_file attribute api location_name
             working_directory)
        = Inl ambiguous_location_name)
   \<and> (truthy_file_config (tc_python_file (pe_target pe_file)) = Some file_config
        \<and> get_python_file_config_data file_config yaml_path
            = (absolute_path, attribute, location_name, wd)
        \<and> snd (list_repositories env (expanduser env (pe_executable_path pe_file))
                 (Some absolute_path) None None api) = Inr symbols
        \<and> 1 < card (symbol_attribute ` set symbols) \<longrightarrow>
      snd (location_handle_from_python_environment_config env pe_file yaml_path api)
        = Inl ambiguous_location_name)
   \<and> (truthy_file_config (tc_python_file (pe_target pe_module)) = None
        \<and> truthy_module_config (tc_python_module (pe_target pe_module)) = Some module_config
        \<and> get_module_config_data module_config = (mname, attribute, location_name)
        \<and> snd (list_repositories env (expanduser env (pe_executable_path pe_module))
                 None (Some mname) None api) = Inr symbols
        \<and> 1 < card (symbol_attribute ` set symbols) \<longrightarrow>
      snd (location_handle_from_python_environment_config env pe_module yaml_path api)
        = Inl ambiguous_location_name)
   \<and> (truthy_file_config (tc_python_file (pe_target pe_package)) = None
        \<and> truthy_module_config (tc_python_module (pe_target pe_package)) = None
        \<and> truthy_package_config (tc_python_package (pe_target pe_package)) = Some package_config
        \<and> get_package_config_data package_config = (pname, attribute, location_name)
        \<and> snd (list_repositories env (expanduser env (pe_executable_path pe_package))
                 None (Some pname) None api) = Inr symbols
        \<and> 1 < card (symbol_attribute ` set symbols) \<longrightarrow>
      snd (location_handle_from_python_environment_config env pe_package yaml_path api)
        = Inl ambiguous_location_name)"
proof (intro conjI impI)
  assume "loadable_targets_from_python_module env mname = Inr ts
        \<and> 1 < card ((definition_name \<circ> target_definition) ` set ts)"
  with assms show "snd (location_handle_from_module_name env mname attribute api location_name)
        = Inl ambiguous_location_name"
    by (simp add: module_ambiguous)
next
  assume "loadable_targets_from_python_package env pname = Inr ts
        \<and> 1 < card ((definition_name \<circ> target_definition) ` set ts)"
  with assms show "snd (location_handle_from_package_name env pname attribute api location_name)
        = Inl ambiguous_location_name"
    by (simp add: package_ambiguous)
next
  assume "loadable_targets_from_python_file env python_file working_directory = Inr ts
        \<and> 1 < card ((definition_name \<circ> target_definition) ` set ts)"
  with assms show "snd (location_handle_from_python_file env python_file attribute api location_name
             working_directory) = Inl ambiguous_location_name"
    by (simp add: python_file_ambiguous)
next
  assume h: "truthy_file_config (tc_python_file (pe_target pe_file)) = Some file_config
        \<and> get_python_file_config_data file_config yaml_path
            = (absolute_path, attribute, location_name, wd)
        \<and> snd (list_repositories env (expanduser env (pe_executable_path pe_file))
                 (Some absolute_path) None None api) = Inr symbols
        \<and> 1 < card (symbol_attribute ` set symbols)"
  then have "snd (python_environment_file env (expanduser env (pe_executable_path pe_file))
                file_config yaml_path api) = Inl ambiguous_location_name"
    using assms python_environment_file_ambiguous by blast
  with h show "snd (location_handle_from_python_environment_config env pe_file yaml_path api)
        = Inl ambiguous_location_name"
    by (simp add: location_handle_from_python_environment_config_def)
next
  assume h: "truthy_file_config (tc_python_file (pe_target pe_module)) = None
        \<and> truthy_module_config (tc_python_module (pe_target pe_module)) = Some module_config
        \<and> get_module_config_data module_config = (mname, attribute, location_name)
        \<and> snd (list_repositories env (expanduser env (pe_executable_path pe_module))
                 None (Some mname) None api) = Inr symbols
        \<and> 1 < card (symbol_attribute ` set symbols)"
  then have "snd (python_environment_module env (expanduser env (pe_executable_path pe_module))
                module_config api) = Inl ambiguous_location_name"
    using assms python_environment_module_ambiguous by blast
  with h show "snd (location_handle_from_python_environment_config env pe_module yaml_path api)
        = Inl ambiguous_location_name"
    by (simp add: location_handle_from_python_environment_config_def)
next
  assume h: "truthy_file_config (tc_python_file (pe_target pe_package)) = None
        \<and> truthy_module_config (tc_python_module (pe_target pe_package)) = None
        \<and> truthy_package_config (tc_python_package (pe_target pe_package)) = Some package_config
        \<and> get_package_config_data package_config = (pname, attribute, location_name)
        \<and> snd (list_repositories env (expanduser env (pe_executable_path pe_package))
                 None (Some pname) None api) = Inr symbols
        \<and> 1 < card (symbol_attribute ` set symbols)"
  then have "snd (python_environment_package env (expanduser env (pe_executable_path pe_package))
                package_config api) = Inl ambiguous_location_name"
    using assms python_environment_package_ambiguous by blast
  with h show "snd (location_handle_from_python_environment_config env pe_package yaml_path api)
        = Inl ambiguous_location_name"
    by (simp add: location_handle_from_python_environment_config_def)
qed


lemmas example_defs = example_env_def example_lister_def example_one_target_def
  example_two_targets_def example_one_symbol_def example_two_symbols_def

theorem ambiguous_location_name_fails_witness:
  "snd (location_handle_from_module_name example_env ''pkg.many'' None CLI None)
     = Inl ambiguous_location_name
   \<and> snd (location_handle_from_package_name example_env ''pkg.many'' None CLI None)
     = Inl ambiguous_location_name
   \<and> snd (location_handle_from_python_file example_env ''/ws/many.py'' None CLI None None)
     = Inl ambiguous_location_name
   \<and> snd (location_handle_from_python_environment_config example_env example_pe_file
            ''/ws/dev.yaml'' CLI)
     = Inl ambiguous_location_name
   \<and> snd (location_handle_from_python_environment_config example_env example_pe_module
            ''/ws/dev.yaml'' CLI)
     = Inl ambiguous_location_name
   \<and> snd (location_handle_from_python_environment_config example_env example_pe_package
            ''/ws/dev.yaml'' CLI)
     = Inl ambiguous_location_name"
  using ambiguous_location_name_fails [where location_name = None and attribute = None
      and env = example_env and mname = "''pkg.many''" and pname = "''pkg.many''"
      and python_file = "''/ws/many.py''" and working_directory = None
      and ts = example_two_targets and api = CLI and yaml_path = "''/ws/dev.yaml''"
      and pe_file = example_pe_file and file_config = "FileStr ''many.py''"
      and absolute_path = "''/ws/many.py''" and wd = None and symbols = example_two_symbols
      and pe_module = example_pe_module and module_config = "ModuleStr ''pkg.many''"
      and pe_package = example_pe_package and package_config = "PackageStr ''pkg.many''"]
  by (simp add: example_defs example_pe_file_def example_pe_module_def example_pe_package_def
      list_repositories_def traced_call_def rebase_file_def dirname_def path_join_def
      is_absolute_def)

subsection \<open>Traces and results\<close>

lemma fst_traced_bind:
  "fst (traced_bind m f) = (case snd m of Inl e \<Rightarrow> fst m | Inr x \<Rightarrow> fst m @ fst (f x))"
  by (cases m; cases "snd m"; simp add: traced_bind_def case_prod_beta)

lemma snd_traced_bind:
  "snd (traced_bind m f) = (case snd m of Inl e \<Rightarrow> Inl e | Inr x \<Rightarrow> snd (f x))"
  by (cases m; cases "snd m"; simp add: traced_bind_def case_prod_beta)

lemma fst_traced_simps:
  "fst (traced_return x) = []" "fst (traced_raise e) = []" "fst (traced_lift r) = []"
  "fst (traced_call ev r) = [ev]"
  by (simp_all add: traced_defs)

lemma snd_traced_simps:
  "snd (traced_return x) = Inr x" "snd (traced_raise e) = Inl e" "snd (traced_lift r) = r"
  "snd (traced_call ev r) = r"
  by (simp_all add: traced_defs)

lemma fst_traced_bind_silent:
  "(\<And>x. fst (f x) = []) \<Longrightarrow> fst (traced_bind m f) = fst m"
  by (simp add: fst_traced_bind split: sum.splits)

lemma list_all_traced_bind:
  "list_all P (fst m) \<Longrightarrow> (\<And>x. list_all P (fst (f x))) \<Longrightarrow> list_all P (fst (traced_bind m f))"
  by (simp add: fst_traced_bind split: sum.splits)

lemma list_all_traced_map:
  "(\<And>x. list_all P (fst (f x))) \<Longrightarrow> list_all P (fst (traced_map f xs))"
  by (induction xs) (auto intro!: list_all_traced_bind simp: traced_return_def)

lemma fst_name_and_create:
  "fst (let d = g ts
        in traced_bind (traced_lift (assign_location_name location_name d))
             (\<lambda>n. traced_return (create_out_of_process_location env d n api))) = []"
  by (simp add: Let_def fst_traced_bind fst_traced_simps split: sum.splits)

lemma bare_traces:
  "fst (location_handle_from_module_name env m attribute api location_name)
     = fst (module_loadable_targets env m attribute)"
  "fst (location_handle_from_package_name env m attribute api location_name)
     = fst (package_loadable_targets env m attribute)"
  "fst (location_handle_from_python_file env f attribute api location_name wd)
     = fst (python_file_loadable_targets env f attribute wd)"
  unfolding location_handle_from_module_name_def location_handle_from_package_name_def
    location_handle_from_python_file_def
  by (rule fst_traced_bind_silent, rule fst_name_and_create)+

lemma loadable_targets_traces:
  "fst (module_loadable_targets env m attribute)
     = [case if_truthy attribute of
          Some a \<Rightarrow> DefFromPointer (from_module m a)
        | None \<Rightarrow> LoadableTargetsFromPythonModule m]"
  "fst (package_loadable_targets env m attribute)
     = [case if_truthy attribute of
          Some a \<Rightarrow> DefFromPointer (from_python_package m a)
        | None \<Rightarrow> LoadableTargetsFromPythonPackage m]"
  "fst (python_file_loadable_targets env f attribute wd)
     = [case if_truthy attribute of
          Some a \<Rightarrow> DefFromPointer (from_python_file f a wd)
        | None \<Rightarrow> LoadableTargetsFromPythonFile f wd]"
  by (simp_all add: module_loadable_targets_def package_loadable_targets_def
      python_file_loadable_targets_def load_def_in_module_def load_def_in_package_def
      load_def_in_python_file_def fst_traced_bind fst_traced_simps
      split: option.splits sum.splits)

lemma target_config_trace:
  "list_all (\<lambda>e. \<not> is_remote_listing e)
     (fst (location_handle_from_target_config env target_config yaml_path api))"
  by (simp add: location_handle_from_target_config_def
      location_handle_from_python_file_config_def location_handle_from_module_config_def
      location_handle_from_package_config_def bare_traces loadable_targets_traces
      fst_traced_simps split: option.splits prod.splits)

lemma list_repositories_trace:
  "fst (list_repositories env exe f m wd api) = [remote_listing_event api exe f m wd]"
  by (simp add: list_repositories_def traced_call_def remote_listing_event_def)

lemma python_environment_traces:
  "fst (python_environment_file env exe fc yaml_path api)
     = (case get_python_file_config_data fc yaml_path of
          (absolute_path, attribute, location_name, wd) \<Rightarrow>
            (case if_truthy attribute of
               Some a \<Rightarrow> []
             | None \<Rightarrow> [remote_listing_event api exe (Some absolute_path) None None]))"
  "fst (python_environment_module env exe mc api)
     = (case get_module_config_data mc of
          (m, attribute, location_name) \<Rightarrow>
            (case if_truthy attribute of
               Some a \<Rightarrow> []
             | None \<Rightarrow> [remote_listing_event api exe None (Some m) None]))"
  "fst (python_environment_package env exe pc api)
     = (case get_package_config_data pc of
          (p, attribute, location_name) \<Rightarrow>
            (case if_truthy attribute of
               Some a \<Rightarrow> []
             | None \<Rightarrow> [remote_listing_event api exe None (Some p) None]))"
  by (simp_all add: python_environment_file_def python_environment_module_def
      python_environment_package_def fst_traced_simps fst_traced_bind_silent
      list_repositories_trace split: prod.splits option.splits)

lemma python_environment_config_trace:
  assumes "\<And>exe f m. P (remote_listing_event api exe f m None)"
  shows "list_all P (fst (location_handle_from_python_environment_config env pe yaml_path api))"
  using assms
  by (simp add: location_handle_from_python_environment_config_def Let_def
      python_environment_traces fst_traced_simps split: option.splits prod.splits)

lemma location_config_trace:
  assumes "\<And>e. \<not> is_remote_listing e \<Longrightarrow> P e"
    and "\<And>exe f m. P (remote_listing_event (api_of_opt_ins opt_ins) exe f m None)"
  shows "list_all P
           (fst (location_handle_from_location_config env location_config yaml_path opt_ins))"
proof -
  have "list_all P (fst (location_handle_from_target_config env location_config yaml_path api))"
    for api
    using target_config_trace [of env location_config yaml_path api] assms(1)
    by (auto simp: list_all_iff)
  moreover have "list_all P (fst (location_handle_from_python_environment_config env pe
                   yaml_path (api_of_opt_ins opt_ins)))" for pe
    using assms(2) by (rule python_environment_config_trace)
  ultimately show ?thesis
    by (simp add: location_handle_from_location_config_def Let_def fst_traced_simps
        split: option.splits)
qed

lemma create_in_process_location_trace:
  "fst (create_in_process_location env p) = [DefFromPointer p]"
  by (simp add: create_in_process_location_def Let_def fst_traced_bind fst_traced_simps
      split: sum.splits)

lemma workspace_config_trace:
  assumes "\<And>e. \<not> is_remote_listing e \<Longrightarrow> P e"
    and "\<And>exe f m. P (remote_listing_event (api_of_opt_ins (opt_ins_of workspace_config))
                          exe f m None)"
  shows "list_all P (fst (load_workspace_from_config env workspace_config yaml_path))"
proof -
  have legacy: "list_all P (fst (traced_bind (create_in_process_location env p)
                   (\<lambda>h. traced_return (Workspace [h]))))" for p
    using assms(1)
    by (simp add: fst_traced_bind_silent fst_traced_simps create_in_process_location_trace)
  have entries: "list_all P (fst (traced_bind
                   (traced_map (\<lambda>location_config.
                      location_handle_from_location_config env location_config yaml_path
                        (opt_ins_of workspace_config)) lcs)
                   (\<lambda>location_handles. traced_return (Workspace location_handles))))" for lcs
    using assms
    by (simp add: fst_traced_bind_silent fst_traced_simps list_all_traced_map
        location_config_trace)
  show ?thesis
    using legacy entries
    by (simp add: load_workspace_from_config_def fst_traced_simps split: option.splits)
qed

lemma remote_listing_kinds:
  "\<not> is_remote_listing e \<Longrightarrow> \<not> is_subprocess_listing e"
  "\<not> is_remote_listing e \<Longrightarrow> \<not> is_rpc_listing e"
  by (cases e; simp)+

subsection \<open>Repository mappings\<close>

lemma assign_location_name_single:
  "assign_location_name location_name [(k, v)]
     = Inr (case if_truthy location_name of Some n \<Rightarrow> n | None \<Rightarrow> k)"
  by (simp add: assign_location_name_def dict_keys_def split: option.splits)

lemma repository_code_pointer_dict_of_single:
  "repository_code_pointer_dict_of f [LoadableTarget a d] = [(definition_name d, f a)]"
  by (simp add: repository_code_pointer_dict_of_def)

lemma module_explicit:
  assumes "if_truthy attribute = Some a"
  shows "module_loadable_targets env m attribute
           = ([DefFromPointer (from_module m a)],
              case def_from_pointer env (from_module m a) of
                Inl e \<Rightarrow> Inl e | Inr d \<Rightarrow> Inr [LoadableTarget a d])"
    and "fst (location_handle_from_module_name env m attribute api location_name)
           = [DefFromPointer (from_module m a)]"
    and "def_from_pointer env (from_module m a) = Inr d \<Longrightarrow>
         snd (location_handle_from_module_name env m attribute api location_name)
           = Inr (OutOfProcessRepositoryLocationHandle
                    (case if_truthy location_name of Some n \<Rightarrow> n | None \<Rightarrow> definition_name d)
                    [(definition_name d, from_module m a)] api)"
  using assms
  by (auto simp: module_loadable_targets_def location_handle_from_module_name_def
      load_def_in_module_def traced_defs repository_code_pointer_dict_of_single
      assign_location_name_single create_out_of_process_location_def
      split: sum.splits prod.splits)

lemma package_explicit:
  assumes "if_truthy attribute = Some a"
  shows "package_loadable_targets env m attribute
           = ([DefFromPointer (from_python_package m a)],
              case def_from_pointer env (from_python_package m a) of
                Inl e \<Rightarrow> Inl e | Inr d \<Rightarrow> Inr [LoadableTarget a d])"
    and "fst (location_handle_from_package_name env m attribute api location_name)
           = [DefFromPointer (from_python_package m a)]"
    and "def_from_pointer env (from_python_package m a) = Inr d \<Longrightarrow>
         snd (location_handle_from_package_name env m attribute api location_name)
           = Inr (OutOfProcessRepositoryLocationHandle
                    (case if_truthy location_name of Some n \<Rightarrow> n | None \<Rightarrow> definition_name d)
                    [(definition_name d, from_python_package m a)]
                    (out_of_process_default_api env))"
  using assms
  by (auto simp: package_loadable_targets_def location_handle_from_package_name_def
      load_def_in_package_def traced_defs repository_code_pointer_dict_of_single
      assign_location_name_single create_out_of_process_location_def
      split: sum.splits prod.splits)

lemma python_file_explicit:
  assumes "if_truthy attribute = Some a"
  shows "python_file_loadable_targets env f attribute wd
           = ([DefFromPointer (from_python_file f a wd)],
              case def_from_pointer env (from_python_file f a wd) of
                Inl e \<Rightarrow> Inl e | Inr d \<Rightarrow> Inr [LoadableTarget a d])"
    and "fst (location_handle_from_python_file env f attribute api location_name wd)
           = [DefFromPointer (from_python_file f a wd)]"
    and "def_from_pointer env (from_python_file f a wd) = Inr d \<Longrightarrow>
         snd (location_handle_from_python_file env f attribute api location_name wd)
           = Inr (OutOfProcessRepositoryLocationHandle
                    (case if_truthy location_name of Some n \<Rightarrow> n | None \<Rightarrow> definition_name d)
                    [(definition_name d, from_python_file f a wd)] api)"
  using assms
  by (auto simp: python_file_loadable_targets_def location_handle_from_python_file_def
      load_def_in_python_file_def traced_defs repository_code_pointer_dict_of_single
      assign_location_name_single create_out_of_process_location_def
      split: sum.splits prod.splits)

lemma python_environment_explicit:
  assumes "if_truthy attribute = Some a"
  shows "get_python_file_config_data fc yaml_path = (absolute_path, attribute, location_name, wd) \<Longrightarrow>
         python_environment_file env exe fc yaml_path api
           = ([], Inr (PythonEnvRepositoryLocationHandle exe
                         (case if_truthy location_name of Some n \<Rightarrow> n | None \<Rightarrow> a)
                         [(a, from_python_file absolute_path a wd)] api))"
    and "get_module_config_data mc = (m, attribute, location_name) \<Longrightarrow>
         python_environment_module env exe mc api
           = ([], Inr (PythonEnvRepositoryLocationHandle exe
                         (case if_truthy location_name of Some n \<Rightarrow> n | None \<Rightarrow> a)
                         [(a, from_module m a)] api))"
    and "get_package_config_data pc = (p, attribute, location_name) \<Longrightarrow>
         python_environment_package env exe pc api
           = ([], Inr (PythonEnvRepositoryLocationHandle exe
                         (case if_truthy location_name of Some n \<Rightarrow> n | None \<Rightarrow> a)
                         [(a, from_python_package p a)] api))"
  using assms
  by (simp_all add: python_environment_file_def python_environment_module_def
      python_environment_package_def traced_defs create_python_env_location_def
      assign_location_name_single)

lemma bare_handle_dict:
  "snd (traced_bind m
          (\<lambda>ts. let d = repository_code_pointer_dict_of f ts
                in traced_bind (traced_lift (assign_location_name location_name d))
                     (\<lambda>n. traced_return (create_out_of_process_location env d n api)))) = Inr h
   \<Longrightarrow> \<exists>ts. snd m = Inr ts
        \<and> handle_repository_code_pointer_dict h = repository_code_pointer_dict_of f ts"
  by (cases m) (auto simp: traced_defs Let_def create_out_of_process_location_def
      split: sum.splits prod.splits)

lemma set_dict_keys_repository_code_pointer_dict_of:
  "set (dict_keys (repository_code_pointer_dict_of f ts))
     = set (map (\<lambda>t. definition_name (target_definition t)) ts)"
  using repository_code_pointer_dict_of_keys [of f ts] by (simp add: comp_def)

lemma set_dict_keys_symbols_code_pointer_dict:
  "set (dict_keys (symbols_code_pointer_dict f ss)) = symbol_attribute ` set ss"
  unfolding symbols_code_pointer_dict_def
  using fold_dict_set_keys [where key = symbol_attribute and val = "f \<circ> symbol_attribute"
      and xs = ss and ?d0.0 = "[]"]
  by (simp add: dict_keys_def)

lemma python_environment_listed_dict:
  assumes "if_truthy attribute = None"
  shows "get_python_file_config_data fc yaml_path = (absolute_path, attribute, location_name, wd) \<Longrightarrow>
         snd (list_repositories env exe (Some absolute_path) None None api) = Inr ss \<Longrightarrow>
         snd (python_environment_file env exe fc yaml_path api) = Inr h \<Longrightarrow>
         handle_repository_code_pointer_dict h
           = symbols_code_pointer_dict (\<lambda>a. from_python_file absolute_path a wd) ss"
    and "get_module_config_data mc = (m, attribute, location_name) \<Longrightarrow>
         snd (list_repositories env exe None (Some m) None api) = Inr ss \<Longrightarrow>
         snd (python_environment_module env exe mc api) = Inr h \<Longrightarrow>
         handle_repository_code_pointer_dict h = symbols_code_pointer_dict (from_module m) ss"
    and "get_package_config_data pc = (p, attribute, location_name) \<Longrightarrow>
         snd (list_repositories env exe None (Some p) None api) = Inr ss \<Longrightarrow>
         snd (python_environment_package env exe pc api) = Inr h \<Longrightarrow>
         handle_repository_code_pointer_dict h
           = symbols_code_pointer_dict (from_python_package p) ss"
  using assms
  by (auto simp: python_environment_file_def python_environment_module_def
      python_environment_package_def snd_traced_bind snd_traced_simps
      create_python_env_location_def split: sum.splits)

text \<open>
  C2 fails on the code for \<^verbatim>\<open>python_environment\<close> entries whose repositories are found
  by the remote lister. Each listed symbol carries the name the repository reports about
  itself and the attribute it was found at, and the mapping built from the symbols is
  keyed by the attribute: its keys are exactly the attributes of the listed symbols,
  for a file, a module and a package alike. The builders for bare modules, packages and
  files key the mapping by the names the loadable targets report, as C2 says. So with a
  lister that reports the repository \<open>prod\<close> at the attribute \<open>my_repo\<close> of
  \<^verbatim>\<open>/ws/repo.py\<close>, the entry
  \<^verbatim>\<open>{python_environment: {executable_path: ~/venv/bin/python, target: {python_file: repo.py}}}\<close>
  gets a mapping with the key \<open>my_repo\<close>, whereas the bare entries for the same module,
  package and file get the key \<open>prod\<close>. The first conjunct is about the mapping alone;
  the others read it back from the handle, whose factories are modelled from the spec
  as storing the mapping they are given.
\<close>

theorem python_environment_keys_are_listed_attributes:
  "set (dict_keys (symbols_code_pointer_dict pointer_of symbols)) = symbol_attribute ` set symbols
   \<and> (if_truthy attribute = None
        \<and> truthy_file_config (tc_python_file (pe_target pe_file)) = Some file_config
        \<and> get_python_file_config_data file_config yaml_path
            = (absolute_path, attribute, location_name, wd)
        \<and> snd (list_repositories env (expanduser env (pe_executable_path pe_file))
                 (Some absolute_path) None None api) = Inr symbols
        \<and> snd (location_handle_from_python_environment_config env pe_file yaml_path api) = Inr h
      \<longrightarrow> set (dict_keys (handle_repository_code_pointer_dict h)) = symbol_attribute ` set symbols)
   \<and> (if_truthy attribute = None
        \<and> truthy_file_config (tc_python_file (pe_target pe_module)) = None
        \<and> truthy_module_config (tc_python_module (pe_target pe_module)) = Some module_config
        \<and> get_module_config_data module_config = (mname, attribute, location_name)
        \<and> snd (list_repositories env (expanduser env (pe_executable_path pe_module))
                 None (Some mname) None api) = Inr symbols
        \<and> snd (location_handle_from_python_environment_config env pe_module yaml_path api) = Inr h
      \<longrightarrow> set (dict_keys (handle_repository_code_pointer_dict h)) = symbol_attribute ` set symbols)
   \<and> (if_truthy attribute = None
        \<and> truthy_file_config (tc_python_file (pe_target pe_package)) = None
        \<and> truthy_module_config (tc_python_module (pe_target pe_package)) = None
        \<and> truthy_package_config (tc_python_package (pe_target pe_package)) = Some package_config
        \<and> get_package_config_data package_config = (pname, attribute, location_name)
        \<and> snd (list_repositories env (expanduser env (pe_executable_path pe_package))
                 None (Some pname) None api) = Inr symbols
        \<and> snd (location_handle_from_python_environment_config env pe_package yaml_path api) = Inr h
      \<longrightarrow> set (dict_keys (handle_repository_code_pointer_dict h)) = symbol_attribute ` set symbols)
   \<and> (snd (location_handle_from_module_name env mname attribute api location_name) = Inr h \<longrightarrow>
      (\<exists>ts. snd (module_loadable_targets env mname attribute) = Inr ts
         \<and> set (dict_keys (handle_repository_code_pointer_dict h))
             = set (map (\<lambda>t. definition_name (target_definition t)) ts)))
   \<and> (snd (location_handle_from_package_name env pname attribute api location_name) = Inr h \<longrightarrow>
      (\<exists>ts. snd (package_loadable_targets env pname attribute) = Inr ts
         \<and> set (dict_keys (handle_repository_code_pointer_dict h))
             = set (map (\<lambda>t. definition_name (target_definition t)) ts)))
   \<and> (snd (location_handle_from_python_file env python_file attribute api location_name
              working_directory) = Inr h \<longrightarrow>
      (\<exists>ts. snd (python_file_loadable_targets env python_file attribute working_directory) = Inr ts
         \<and> set (dict_keys (handle_repository_code_pointer_dict h))
             = set (map (\<lambda>t. definition_name (target_definition t)) ts)))"
proof (intro conjI impI)
  show "set (dict_keys (symbols_code_pointer_dict pointer_of symbols))
          = symbol_attribute ` set symbols"
    by (rule set_dict_keys_symbols_code_pointer_dict)
next
  assume a: "if_truthy attribute = None
        \<and> truthy_file_config (tc_python_file (pe_target pe_file)) = Some file_config
        \<and> get_python_file_config_data file_config yaml_path
            = (absolute_path, attribute, location_name, wd)
        \<and> snd (list_repositories env (expanduser env (pe_executable_path pe_file))
                 (Some absolute_path) None None api) = Inr symbols
        \<and> snd (location_handle_from_python_environment_config env pe_file yaml_path api) = Inr h"
  then have "snd (python_environment_file env (expanduser env (pe_executable_path pe_file))
                    file_config yaml_path api) = Inr h"
    by (clarsimp simp: location_handle_from_python_environment_config_def Let_def)
  with a have "handle_repository_code_pointer_dict h
                 = symbols_code_pointer_dict (\<lambda>a. from_python_file absolute_path a wd) symbols"
    using python_environment_listed_dict(1) by blast
  then show "set (dict_keys (handle_repository_code_pointer_dict h))
               = symbol_attribute ` set symbols"
    by (simp add: set_dict_keys_symbols_code_pointer_dict)
next
  assume a: "if_truthy attribute = None
        \<and> truthy_file_config (tc_python_file (pe_target pe_module)) = None
        \<and> truthy_module_config (tc_python_module (pe_target pe_module)) = Some module_config
        \<and> get_module_config_data module_config = (mname, attribute, location_name)
        \<and> snd (list_repositories env (expanduser env (pe_executable_path pe_module))
                 None (Some mname) None api) = Inr symbols
        \<and> snd (location_handle_from_python_environment_config env pe_module yaml_path api) = Inr h"
  then have "snd (python_environment_module env (expanduser env (pe_executable_path pe_module))
                    module_config api) = Inr h"
    by (clarsimp simp: location_handle_from_python_environment_config_def Let_def)
  with a have "handle_repository_code_pointer_dict h
                 = symbols_code_pointer_dict (from_module mname) symbols"
    using python_environment_listed_dict(2) by blast
  then show "set (dict_keys (handle_repository_code_pointer_dict h))
               = symbol_attribute ` set symbols"
    by (simp add: set_dict_keys_symbols_code_pointer_dict)
next
  assume a: "if_truthy attribute = None
        \<and> truthy_file_config (tc_python_file (pe_target pe_package)) = None
        \<and> truthy_module_config (tc_python_module (pe_target pe_package)) = None
        \<and> truthy_package_config (tc_python_package (pe_target pe_package)) = Some package_config
        \<and> get_package_config_data package_config = (pname, attribute, location_name)
        \<and> snd (list_repositories env (expanduser env (pe_executable_path pe_package))
                 None (Some pname) None api) = Inr symbols
        \<and> snd (location_handle_from_python_environment_config env pe_package yaml_path api) = Inr h"
  then have "snd (python_environment_package env (expanduser env (pe_executable_path pe_package))
                    package_config api) = Inr h"
    by (clarsimp simp: location_handle_from_python_environment_config_def Let_def)
  with a have "handle_repository_code_pointer_dict h
                 = symbols_code_pointer_dict (from_python_package pname) symbols"
    using python_environment_listed_dict(3) by blast
  then show "set (dict_keys (handle_repository_code_pointer_dict h))
               = symbol_attribute ` set symbols"
    by (simp add: set_dict_keys_symbols_code_pointer_dict)
next
  assume a: "snd (location_handle_from_module_name env mname attribute api location_name) = Inr h"
  have "\<exists>ts. snd (module_loadable_targets env mname attribute) = Inr ts
          \<and> handle_repository_code_pointer_dict h
              = repository_code_pointer_dict_of (from_module mname) ts"
    using a unfolding location_handle_from_module_name_def by (rule bare_handle_dict)
  then show "\<exists>ts. snd (module_loadable_targets env mname attribute) = Inr ts
         \<and> set (dict_keys (handle_repository_code_pointer_dict h))
             = set (map (\<lambda>t. definition_name (target_definition t)) ts)"
    by (auto simp: set_dict_keys_repository_code_pointer_dict_of)
next
  assume a: "snd (location_handle_from_package_name env pname attribute api location_name) = Inr h"
  have "\<exists>ts. snd (package_loadable_targets env pname attribute) = Inr ts
          \<and> handle_repository_code_pointer_dict h
              = repository_code_pointer_dict_of (from_python_package pname) ts"
    using a unfolding location_handle_from_package_name_def by (rule bare_handle_dict)
  then show "\<exists>ts. snd (package_loadable_targets env pname attribute) = Inr ts
         \<and> set (dict_keys (handle_repository_code_pointer_dict h))
             = set (map (\<lambda>t. definition_name (target_definition t)) ts)"
    by (auto simp: set_dict_keys_repository_code_pointer_dict_of)
next
  assume a: "snd (location_handle_from_python_file env python_file attribute api location_name
              working_directory) = Inr h"
  have "\<exists>ts. snd (python_file_loadable_targets env python_file attribute working_directory) = Inr ts
          \<and> handle_repository_code_pointer_dict h
              = repository_code_pointer_dict_of
                  (\<lambda>a. from_python_file python_file a working_directory) ts"
    using a unfolding location_handle_from_python_file_def by (rule bare_handle_dict)
  then show "\<exists>ts. snd (python_file_loadable_targets env python_file attribute working_directory)
               = Inr ts
         \<and> set (dict_keys (handle_repository_code_pointer_dict h))
             = set (map (\<lambda>t. definition_name (target_definition t)) ts)"
    by (auto simp: set_dict_keys_repository_code_pointer_dict_of)
qed

theorem python_environment_keys_are_listed_attributes_witness:
  "sync_list_repositories example_env ''/home/user/venv/bin/python'' (Some ''/ws/repo.py'') None None
     = Inr [LoadableRepositorySymbol ''prod'' ''my_repo'']
   \<and> location_handle_from_python_environment_config example_env example_pe_repo ''/ws/dev.yaml''
       CLI
     = ([SyncListRepositories ''/home/user/venv/bin/python'' (Some ''/ws/repo.py'') None None],
        Inr (PythonEnvRepositoryLocationHandle ''/home/user/venv/bin/python'' ''my_repo''
               [(''my_repo'', FileCodePointer ''/ws/repo.py'' ''my_repo'' None)] CLI))
   \<and> set (dict_keys [(''my_repo'', FileCodePointer ''/ws/repo.py'' ''my_repo'' None)])
     = symbol_attribute ` set [LoadableRepositorySymbol ''prod'' ''my_repo'']
   \<and> dict_keys [(''my_repo'', FileCodePointer ''/ws/repo.py'' ''my_repo'' None)]
     \<noteq> map symbol_repository_name [LoadableRepositorySymbol ''prod'' ''my_repo'']
   \<and> snd (location_handle_from_python_environment_config example_env example_pe_module_named
            ''/ws/dev.yaml'' CLI)
     = Inr (PythonEnvRepositoryLocationHandle ''/home/user/venv/bin/python'' ''many''
              [(''repo_a'', ModuleCodePointer ''pkg.many'' ''repo_a''),
               (''repo_b'', ModuleCodePointer ''pkg.many'' ''repo_b'')] CLI)
   \<and> snd (location_handle_from_python_environment_config example_env example_pe_package_named
            ''/ws/dev.yaml'' CLI)
     = Inr (PythonEnvRepositoryLocationHandle ''/home/user/venv/bin/python'' ''many''
              [(''repo_a'', PackageCodePointer ''pkg.many'' ''repo_a''),
               (''repo_b'', PackageCodePointer ''pkg.many'' ''repo_b'')] CLI)
   \<and> {''repo_a'', ''repo_b''} = symbol_attribute ` set example_two_symbols
   \<and> snd (location_handle_from_module_name example_env ''pkg.repo'' None CLI None)
     = Inr (OutOfProcessRepositoryLocationHandle ''prod''
              [(''prod'', ModuleCodePointer ''pkg.repo'' ''my_repo'')] CLI)
   \<and> snd (location_handle_from_package_name example_env ''pkg.repo'' None CLI None)
     = Inr (OutOfProcessRepositoryLocationHandle ''prod''
              [(''prod'', PackageCodePointer ''pkg.repo'' ''my_repo'')] CLI)
   \<and> snd (location_handle_from_python_file example_env ''/ws/repo.py'' None CLI None None)
     = Inr (OutOfProcessRepositoryLocationHandle ''prod''
              [(''prod'', FileCodePointer ''/ws/repo.py'' ''my_repo'' None)] CLI)
   \<and> (\<exists>ts. snd (module_loadable_targets example_env ''pkg.repo'' None) = Inr ts
         \<and> {''prod''} = set (map (\<lambda>t. definition_name (target_definition t)) ts))
   \<and> (\<exists>ts. snd (package_loadable_targets example_env ''pkg.repo'' None) = Inr ts
         \<and> {''prod''} = set (map (\<lambda>t. definition_name (target_definition t)) ts))
   \<and> (\<exists>ts. snd (python_file_loadable_targets example_env ''/ws/repo.py'' None None) = Inr ts
         \<and> {''prod''} = set (map (\<lambda>t. definition_name (target_definition t)) ts))"
proof -
  let ?exe = "''/home/user/venv/bin/python''"
  let ?hf = "PythonEnvRepositoryLocationHandle ?exe ''my_repo''
               [(''my_repo'', FileCodePointer ''/ws/repo.py'' ''my_repo'' None)] CLI"
  let ?hm = "PythonEnvRepositoryLocationHandle ?exe ''many''
               [(''repo_a'', ModuleCodePointer ''pkg.many'' ''repo_a''),
                (''repo_b'', ModuleCodePointer ''pkg.many'' ''repo_b'')] CLI"
  let ?hp = "PythonEnvRepositoryLocationHandle ?exe ''many''
               [(''repo_a'', PackageCodePointer ''pkg.many'' ''repo_a''),
                (''repo_b'', PackageCodePointer ''pkg.many'' ''repo_b'')] CLI"
  let ?bm = "OutOfProcessRepositoryLocationHandle ''prod''
               [(''prod'', ModuleCodePointer ''pkg.repo'' ''my_repo'')] CLI"
  let ?bp = "OutOfProcessRepositoryLocationHandle ''prod''
               [(''prod'', PackageCodePointer ''pkg.repo'' ''my_repo'')] CLI"
  let ?bf = "OutOfProcessRepositoryLocationHandle ''prod''
               [(''prod'', FileCodePointer ''/ws/repo.py'' ''my_repo'' None)] CLI"
  have e: "expanduser example_env ''~/venv/bin/python'' = ?exe"
    by (simp add: example_env_def)
  have r: "rebase_file ''repo.py'' ''/ws/dev.yaml'' = ''/ws/repo.py''"
    by (simp add: rebase_file_def dirname_def path_join_def is_absolute_def)
  have l1: "sync_list_repositories example_env ?exe (Some ''/ws/repo.py'') None None
              = Inr [LoadableRepositorySymbol ''prod'' ''my_repo'']"
    by (simp add: example_defs)
  have l2: "sync_list_repositories example_env ?exe None (Some ''pkg.many'') None
              = Inr example_two_symbols"
    by (simp add: example_env_def example_lister_def)
  have lr: "snd (list_repositories example_env ?exe (Some ''/ws/repo.py'') None None CLI)
              = Inr [LoadableRepositorySymbol ''prod'' ''my_repo'']"
    "snd (list_repositories example_env ?exe None (Some ''pkg.many'') None CLI)
              = Inr example_two_symbols"
    by (simp_all add: list_repositories_def traced_call_def l1 l2)
  have pf: "location_handle_from_python_environment_config example_env example_pe_repo
              ''/ws/dev.yaml'' CLI
            = ([SyncListRepositories ?exe (Some ''/ws/repo.py'') None None], Inr ?hf)"
    by (simp add: location_handle_from_python_environment_config_def example_pe_repo_def
        Let_def python_environment_file_def list_repositories_def traced_defs e r l1
        create_python_env_location_def assign_location_name_def symbols_code_pointer_dict_def
        from_python_file_def dict_keys_def)
  have pm: "snd (location_handle_from_python_environment_config example_env
                   example_pe_module_named ''/ws/dev.yaml'' CLI) = Inr ?hm"
    by (simp add: location_handle_from_python_environment_config_def example_pe_module_named_def
        Let_def python_environment_module_def list_repositories_def traced_defs e l2
        example_two_symbols_def
        create_python_env_location_def assign_location_name_def symbols_code_pointer_dict_def
        from_module_def dict_keys_def)
  have pp: "snd (location_handle_from_python_environment_config example_env
                   example_pe_package_named ''/ws/dev.yaml'' CLI) = Inr ?hp"
    by (simp add: location_handle_from_python_environment_config_def
        example_pe_package_named_def
        Let_def python_environment_package_def list_repositories_def traced_defs e l2
        example_two_symbols_def
        create_python_env_location_def assign_location_name_def symbols_code_pointer_dict_def
        from_python_package_def dict_keys_def)
  have bm: "snd (location_handle_from_module_name example_env ''pkg.repo'' None CLI None)
              = Inr ?bm"
    by (simp add: location_handle_from_module_name_def module_loadable_targets_def traced_defs
        example_defs repository_code_pointer_dict_of_def assign_location_name_def dict_keys_def
        create_out_of_process_location_def from_module_def)
  have bp: "snd (location_handle_from_package_name example_env ''pkg.repo'' None CLI None)
              = Inr ?bp"
    by (simp add: location_handle_from_package_name_def package_loadable_targets_def traced_defs
        example_defs repository_code_pointer_dict_of_def assign_location_name_def dict_keys_def
        create_out_of_process_location_def from_python_package_def)
  have bf: "snd (location_handle_from_python_file example_env ''/ws/repo.py'' None CLI None None)
              = Inr ?bf"
    by (simp add: location_handle_from_python_file_def python_file_loadable_targets_def
        traced_defs example_defs repository_code_pointer_dict_of_def assign_location_name_def
        dict_keys_def create_out_of_process_location_def from_python_file_def)
  note inst = python_environment_keys_are_listed_attributes [where env = example_env
      and api = CLI and yaml_path = "''/ws/dev.yaml''" and attribute = None]
  have k1: "set (dict_keys [(''my_repo'', FileCodePointer ''/ws/repo.py'' ''my_repo'' None)])
              = symbol_attribute ` set [LoadableRepositorySymbol ''prod'' ''my_repo'']"
    using inst [where pe_file = example_pe_repo and file_config = "FileStr ''repo.py''"
        and absolute_path = "''/ws/repo.py''" and location_name = None and wd = None
        and symbols = "[LoadableRepositorySymbol ''prod'' ''my_repo'']" and h = ?hf] pf lr(1)
    by (simp add: example_pe_repo_def e r)
  have k2: "{''repo_a'', ''repo_b''} = symbol_attribute ` set example_two_symbols"
    using inst [where pe_module = example_pe_module_named
        and module_config = "ModuleDict ''pkg.many'' None (Some ''many'')"
        and mname = "''pkg.many''" and location_name = "Some ''many''"
        and symbols = example_two_symbols and h = ?hm] pm lr(2)
      inst [where pe_package = example_pe_package_named
        and package_config = "PackageDict ''pkg.many'' None (Some ''many'')"
        and pname = "''pkg.many''" and location_name = "Some ''many''"
        and symbols = example_two_symbols and h = ?hp] pp
    by (simp add: example_pe_module_named_def example_pe_package_named_def e dict_keys_def)
  have k3: "(\<exists>ts. snd (module_loadable_targets example_env ''pkg.repo'' None) = Inr ts
         \<and> {''prod''} = set (map (\<lambda>t. definition_name (target_definition t)) ts))
   \<and> (\<exists>ts. snd (package_loadable_targets example_env ''pkg.repo'' None) = Inr ts
         \<and> {''prod''} = set (map (\<lambda>t. definition_name (target_definition t)) ts))
   \<and> (\<exists>ts. snd (python_file_loadable_targets example_env ''/ws/repo.py'' None None) = Inr ts
         \<and> {''prod''} = set (map (\<lambda>t. definition_name (target_definition t)) ts))"
    using inst [where mname = "''pkg.repo''" and location_name = None and h = ?bm] bm
      inst [where pname = "''pkg.repo''" and location_name = None and h = ?bp] bp
      inst [where python_file = "''/ws/repo.py''" and location_name = None
        and working_directory = None and h = ?bf] bf
    by (simp add: dict_keys_def)
  show ?thesis
    using l1 pf pm pp bm bp bf k1 k2 k3 by (simp add: dict_keys_def)
qed

subsection \<open>Enumeration strategy\<close>

text \<open>
  C3, as stated, fails for bare targets. With the opt-in \<open>grpc\<close> present, the bare module
  entry \<^verbatim>\<open>{python_module: pkg.repo}\<close> is enumerated by one in-process call of the target
  loader and by no call of the remote lister.
\<close>

theorem rpc_opt_in_bare_module_counterexample:
  "location_handle_from_location_config example_env example_module_entry ''/ws/dev.yaml''
       {''grpc''}
     = ([LoadableTargetsFromPythonModule ''pkg.repo''],
        Inr (OutOfProcessRepositoryLocationHandle ''prod''
               [(''prod'', ModuleCodePointer ''pkg.repo'' ''my_repo'')] GRPC))"
  by (simp add: location_handle_from_location_config_def location_handle_from_target_config_def
      location_handle_from_module_config_def location_handle_from_module_name_def
      module_loadable_targets_def repository_code_pointer_dict_of_def
      assign_location_name_def create_out_of_process_location_def from_module_def
      dict_keys_def api_of_opt_ins_def example_module_entry_def example_defs traced_defs)

text \<open>
  C3 (amended). The api is resolved from the \<^verbatim>\<open>opt_in\<close> set of the document and is the same
  for all its entries: when \<open>grpc\<close> is in the set, resolving the document makes no
  plain-subprocess listing, and when it is not, no RPC listing. A bare target entry
  never reaches the remote lister, whatever the set; without an attribute a bare module,
  package or file is enumerated by exactly one in-process call of the target loader, for
  either api. A \<^verbatim>\<open>python_environment\<close> entry is resolved with the api of the set, and
  without an attribute its file, module or package is enumerated by exactly one call of
  the remote lister: the RPC variant for \<open>GRPC\<close>, the plain subprocess variant for \<open>CLI\<close>.
\<close>

theorem enumeration_strategy_by_entry_kind:
  "(''grpc'' \<in> opt_ins_of workspace_config \<longrightarrow>
      list_all (\<lambda>e. \<not> is_subprocess_listing e)
        (fst (load_workspace_from_config env workspace_config yaml_path)))
   \<and> (''grpc'' \<notin> opt_ins_of workspace_config \<longrightarrow>
      list_all (\<lambda>e. \<not> is_rpc_listing e)
        (fst (load_workspace_from_config env workspace_config yaml_path)))
   \<and> (is_target_config location_config \<longrightarrow>
      list_all (\<lambda>e. \<not> is_remote_listing e)
        (fst (location_handle_from_location_config env location_config yaml_path opt_ins)))
   \<and> (if_truthy attribute = None \<longrightarrow>
      fst (location_handle_from_module_name env mname attribute api location_name)
        = [LoadableTargetsFromPythonModule mname]
      \<and> fst (location_handle_from_package_name env pname attribute api location_name)
        = [LoadableTargetsFromPythonPackage pname]
      \<and> fst (location_handle_from_python_file env python_file attribute api location_name
               working_directory)
        = [LoadableTargetsFromPythonFile python_file working_directory])
   \<and> (\<not> is_target_config location_config \<and> lc_grpc_server location_config = None
        \<and> lc_python_environment location_config = Some pe \<longrightarrow>
      location_handle_from_location_config env location_config yaml_path opt_ins
        = location_handle_from_python_environment_config env pe yaml_path
            (if ''grpc'' \<in> opt_ins then GRPC else CLI))
   \<and> (if_truthy attribute = None
        \<and> truthy_file_config (tc_python_file (pe_target pe_file)) = Some file_config
        \<and> get_python_file_config_data file_config yaml_path
            = (absolute_path, attribute, location_name, wd) \<longrightarrow>
      fst (location_handle_from_python_environment_config env pe_file yaml_path api)
        = [if api = GRPC
           then SyncListRepositoriesEphemeralGrpc (expanduser env (pe_executable_path pe_file))
                  (Some absolute_path) None None
           else SyncListRepositories (expanduser env (pe_executable_path pe_file))
                  (Some absolute_path) None None])
   \<and> (if_truthy attribute = None
        \<and> truthy_file_config (tc_python_file (pe_target pe_module)) = None
        \<and> truthy_module_config (tc_python_module (pe_target pe_module)) = Some module_config
        \<and> get_module_config_data module_config = (mname, attribute, location_name) \<longrightarrow>
      fst (location_handle_from_python_environment_config env pe_module yaml_path api)
        = [if api = GRPC
           then SyncListRepositoriesEphemeralGrpc (expanduser env (pe_executable_path pe_module))
                  None (Some mname) None
           else SyncListRepositories (expanduser env (pe_executable_path pe_module))
                  None (Some mname) None])
   \<and> (if_truthy attribute = None
        \<and> truthy_file_config (tc_python_file (pe_target pe_package)) = None
        \<and> truthy_module_config (tc_python_module (pe_target pe_package)) = None
        \<and> truthy_package_config (tc_python_package (pe_target pe_package)) = Some package_config
        \<and> get_package_config_data package_config = (pname, attribute, location_name) \<longrightarrow>
      fst (location_handle_from_python_environment_config env pe_package yaml_path api)
        = [if api = GRPC
           then SyncListRepositoriesEphemeralGrpc (expanduser env (pe_executable_path pe_package))
                  None (Some pname) None
           else SyncListRepositories (expanduser env (pe_executable_path pe_package))
                  None (Some pname) None])"
proof (intro conjI impI)
  assume "''grpc'' \<in> opt_ins_of workspace_config"
  then show "list_all (\<lambda>e. \<not> is_subprocess_listing e)
        (fst (load_workspace_from_config env workspace_config yaml_path))"
    by (intro workspace_config_trace)
       (simp_all add: remote_listing_kinds api_of_opt_ins_def remote_listing_event_def)
next
  assume "''grpc'' \<notin> opt_ins_of workspace_config"
  then show "list_all (\<lambda>e. \<not> is_rpc_listing e)
        (fst (load_workspace_from_config env workspace_config yaml_path))"
    by (intro workspace_config_trace)
       (simp_all add: remote_listing_kinds api_of_opt_ins_def remote_listing_event_def)
next
  assume "is_target_config location_config"
  then show "list_all (\<lambda>e. \<not> is_remote_listing e)
        (fst (location_handle_from_location_config env location_config yaml_path opt_ins))"
    using target_config_trace [of env location_config yaml_path "api_of_opt_ins opt_ins"]
    by (simp add: location_handle_from_location_config_def)
next
  assume "if_truthy attribute = None"
  then show "fst (location_handle_from_module_name env mname attribute api location_name)
        = [LoadableTargetsFromPythonModule mname]"
    and "fst (location_handle_from_package_name env pname attribute api location_name)
        = [LoadableTargetsFromPythonPackage pname]"
    and "fst (location_handle_from_python_file env python_file attribute api location_name
               working_directory)
        = [LoadableTargetsFromPythonFile python_file working_directory]"
    by (simp_all add: bare_traces loadable_targets_traces)
next
  assume "\<not> is_target_config location_config \<and> lc_grpc_server location_config = None
        \<and> lc_python_environment location_config = Some pe"
  then show "location_handle_from_location_config env location_config yaml_path opt_ins
        = location_handle_from_python_environment_config env pe yaml_path
            (if ''grpc'' \<in> opt_ins then GRPC else CLI)"
    by (simp add: location_handle_from_location_config_def api_of_opt_ins_def)
next
  assume "if_truthy attribute = None
        \<and> truthy_file_config (tc_python_file (pe_target pe_file)) = Some file_config
        \<and> get_python_file_config_data file_config yaml_path
            = (absolute_path, attribute, location_name, wd)"
  then show "fst (location_handle_from_python_environment_config env pe_file yaml_path api)
        = [if api = GRPC
           then SyncListRepositoriesEphemeralGrpc (expanduser env (pe_executable_path pe_file))
                  (Some absolute_path) None None
           else SyncListRepositories (expanduser env (pe_executable_path pe_file))
                  (Some absolute_path) None None]"
    by (simp add: location_handle_from_python_environment_config_def python_environment_traces
        remote_listing_event_def)
next
  assume "if_truthy attribute = None
        \<and> truthy_file_config (tc_python_file (pe_target pe_module)) = None
        \<and> truthy_module_config (tc_python_module (pe_target pe_module)) = Some module_config
        \<and> get_module_config_data module_config = (mname, attribute, location_name)"
  then show "fst (location_handle_from_python_environment_config env pe_module yaml_path api)
        = [if api = GRPC
           then SyncListRepositoriesEphemeralGrpc (expanduser env (pe_executable_path pe_module))
                  None (Some mname) None
           else SyncListRepositories (expanduser env (pe_executable_path pe_module))
                  None (Some mname) None]"
    by (simp add: location_handle_from_python_environment_config_def python_environment_traces
        remote_listing_event_def)
next
  assume "if_truthy attribute = None
        \<and> truthy_file_config (tc_python_file (pe_target pe_package)) = None
        \<and> truthy_module_config (tc_python_module (pe_target pe_package)) = None
        \<and> truthy_package_config (tc_python_package (pe_target pe_package)) = Some package_config
        \<and> get_package_config_data package_config = (pname, attribute, location_name)"
  then show "fst (location_handle_from_python_environment_config env pe_package yaml_path api)
        = [if api = GRPC
           then SyncListRepositoriesEphemeralGrpc (expanduser env (pe_executable_path pe_package))
                  None (Some pname) None
           else SyncListRepositories (expanduser env (pe_executable_path pe_package))
                  None (Some pname) None]"
    by (simp add: location_handle_from_python_environment_config_def python_environment_traces
        remote_listing_event_def)
qed

theorem enumeration_strategy_by_entry_kind_witness:
  "fst (load_workspace_from_config example_env example_rpc_document ''/ws/dev.yaml'')
     = [LoadableTargetsFromPythonModule ''pkg.repo'',
        SyncListRepositoriesEphemeralGrpc ''/home/user/venv/bin/python'' (Some ''/ws/repo.py'')
          None None]
   \<and> list_all (\<lambda>e. \<not> is_subprocess_listing e)
       (fst (load_workspace_from_config example_env example_rpc_document ''/ws/dev.yaml''))
   \<and> fst (load_workspace_from_config example_env example_cli_document ''/ws/dev.yaml'')
     = [LoadableTargetsFromPythonModule ''pkg.repo'',
        SyncListRepositories ''/home/user/venv/bin/python'' (Some ''/ws/repo.py'') None None]
   \<and> list_all (\<lambda>e. \<not> is_rpc_listing e)
       (fst (load_workspace_from_config example_env example_cli_document ''/ws/dev.yaml''))
   \<and> list_all (\<lambda>e. \<not> is_remote_listing e)
       (fst (location_handle_from_location_config example_env example_module_entry
               ''/ws/dev.yaml'' {''grpc''}))
   \<and> fst (location_handle_from_module_name example_env ''pkg.repo'' None GRPC None)
     = [LoadableTargetsFromPythonModule ''pkg.repo'']
   \<and> fst (location_handle_from_package_name example_env ''pkg'' None GRPC None)
     = [LoadableTargetsFromPythonPackage ''pkg'']
   \<and> fst (location_handle_from_python_file example_env ''/ws/repo.py'' None GRPC None None)
     = [LoadableTargetsFromPythonFile ''/ws/repo.py'' None]
   \<and> location_handle_from_location_config example_env example_pe_entry ''/ws/dev.yaml'' {''grpc''}
     = location_handle_from_python_environment_config example_env example_pe_repo
         ''/ws/dev.yaml'' GRPC
   \<and> fst (location_handle_from_python_environment_config example_env example_pe_repo
            ''/ws/dev.yaml'' GRPC)
     = [SyncListRepositoriesEphemeralGrpc ''/home/user/venv/bin/python'' (Some ''/ws/repo.py'')
          None None]
   \<and> fst (location_handle_from_python_environment_config example_env example_pe_module
            ''/ws/dev.yaml'' GRPC)
     = [SyncListRepositoriesEphemeralGrpc ''/home/user/venv/bin/python'' None
          (Some ''pkg.many'') None]
   \<and> fst (location_handle_from_python_environment_config example_env example_pe_package
            ''/ws/dev.yaml'' GRPC)
     = [SyncListRepositoriesEphemeralGrpc ''/home/user/venv/bin/python'' None
          (Some ''pkg.many'') None]"
proof -
  have e: "expanduser example_env ''~/venv/bin/python'' = ''/home/user/venv/bin/python''"
    by (simp add: example_env_def)
  have r: "rebase_file ''repo.py'' ''/ws/dev.yaml'' = ''/ws/repo.py''"
    by (simp add: rebase_file_def dirname_def path_join_def is_absolute_def)
  have o: "opt_ins_of example_rpc_document = {''grpc''}" "opt_ins_of example_cli_document = {}"
    by (simp_all add: opt_ins_of_def example_rpc_document_def example_cli_document_def)
  have m: "location_handle_from_location_config example_env example_module_entry ''/ws/dev.yaml''
             opt_ins
           = ([LoadableTargetsFromPythonModule ''pkg.repo''],
              Inr (OutOfProcessRepositoryLocationHandle ''prod''
                     [(''prod'', ModuleCodePointer ''pkg.repo'' ''my_repo'')]
                     (api_of_opt_ins opt_ins)))" for opt_ins
    by (simp add: location_handle_from_location_config_def location_handle_from_target_config_def
        location_handle_from_module_config_def location_handle_from_module_name_def
        module_loadable_targets_def repository_code_pointer_dict_of_def
        assign_location_name_def create_out_of_process_location_def from_module_def
        dict_keys_def example_module_entry_def example_defs traced_defs)
  have p: "location_handle_from_location_config example_env example_pe_entry ''/ws/dev.yaml''
             opt_ins
           = ([remote_listing_event (api_of_opt_ins opt_ins) ''/home/user/venv/bin/python''
                 (Some ''/ws/repo.py'') None None],
              Inr (PythonEnvRepositoryLocationHandle ''/home/user/venv/bin/python'' ''my_repo''
                     [(''my_repo'', FileCodePointer ''/ws/repo.py'' ''my_repo'' None)]
                     (api_of_opt_ins opt_ins)))" for opt_ins
    by (simp add: location_handle_from_location_config_def example_pe_entry_def
        location_handle_from_python_environment_config_def example_pe_repo_def Let_def
        python_environment_file_def list_repositories_def remote_listing_event_def traced_defs
        example_defs create_python_env_location_def assign_location_name_def
        symbols_code_pointer_dict_def from_python_file_def dict_keys_def r)
  have ens: "ensure_workspace_config example_env c y = None" for c y
    by (simp add: example_env_def)
  have docs: "wc_repository example_rpc_document = None"
    "wc_load_from example_rpc_document = Some [example_module_entry, example_pe_entry]"
    "wc_repository example_cli_document = None"
    "wc_load_from example_cli_document = Some [example_module_entry, example_pe_entry]"
    by (simp_all add: example_rpc_document_def example_cli_document_def)
  have d1: "fst (load_workspace_from_config example_env example_rpc_document ''/ws/dev.yaml'')
     = [LoadableTargetsFromPythonModule ''pkg.repo'',
        SyncListRepositoriesEphemeralGrpc ''/home/user/venv/bin/python'' (Some ''/ws/repo.py'')
          None None]"
    by (simp add: load_workspace_from_config_def ens docs o m p traced_defs
        api_of_opt_ins_def remote_listing_event_def)
  have d2: "fst (load_workspace_from_config example_env example_cli_document ''/ws/dev.yaml'')
     = [LoadableTargetsFromPythonModule ''pkg.repo'',
        SyncListRepositories ''/home/user/venv/bin/python'' (Some ''/ws/repo.py'') None None]"
    by (simp add: load_workspace_from_config_def ens docs o m p traced_defs
        api_of_opt_ins_def remote_listing_event_def)
  note inst = enumeration_strategy_by_entry_kind [where env = example_env
      and yaml_path = "''/ws/dev.yaml''" and attribute = None and location_name = None
      and api = GRPC and opt_ins = "{''grpc''}"]
  show ?thesis
    using inst [where workspace_config = example_rpc_document
        and location_config = example_module_entry and mname = "''pkg.repo''"
        and pname = "''pkg''" and python_file = "''/ws/repo.py''" and working_directory = None
        and pe_file = example_pe_repo and file_config = "FileStr ''repo.py''"
        and absolute_path = "''/ws/repo.py''" and wd = None]
      inst [where workspace_config = example_cli_document
        and location_config = example_pe_entry and pe = example_pe_repo
        and mname = "''pkg.many''" and pname = "''pkg.many''"
        and pe_module = example_pe_module and module_config = "ModuleStr ''pkg.many''"
        and pe_package = example_pe_package and package_config = "PackageStr ''pkg.many''"]
      d1 d2
    by (simp add: o e r example_pe_repo_def example_pe_module_def example_pe_package_def
        example_pe_entry_def example_module_entry_def)
qed

text \<open>
  C4 fails for packages on the code: \<open>location_handle_from_package_name\<close> does not pass
  its \<open>api\<close> on, so it returns the same handle for \<open>GRPC\<close> and for \<open>CLI\<close>. The package
  entry \<^verbatim>\<open>{python_package: pkg.repo}\<close> of a document with the opt-in \<open>grpc\<close> gets the
  default api of the factory (here \<open>CLI\<close>) and not \<open>GRPC\<close>. The builders for modules and
  files pass the api on.
\<close>

theorem package_entry_ignores_rpc_opt_in:
  "location_handle_from_package_name env pname attribute GRPC location_name
     = location_handle_from_package_name env pname attribute CLI location_name
   \<and> location_handle_from_location_config example_env example_package_entry ''/ws/dev.yaml''
       {''grpc''}
     = ([LoadableTargetsFromPythonPackage ''pkg.repo''],
        Inr (OutOfProcessRepositoryLocationHandle ''prod''
               [(''prod'', PackageCodePointer ''pkg.repo'' ''my_repo'')]
               (out_of_process_default_api example_env)))
   \<and> out_of_process_default_api example_env = CLI"
  by (simp add: location_handle_from_package_name_def location_handle_from_location_config_def
      location_handle_from_target_config_def location_handle_from_package_config_def
      package_loadable_targets_def repository_code_pointer_dict_of_def
      assign_location_name_def create_out_of_process_location_def from_python_package_def
      dict_keys_def api_of_opt_ins_def example_package_entry_def example_defs traced_defs)

text \<open>
  C8. With an explicit (non-empty) attribute, discovery is never invoked. For a bare
  module, package or file the list of loadable targets is the single target made of the
  attribute and the definition loaded at its pointer, the trace is that one load (no
  enumeration by the target loader, no call of the remote lister), and the mapping of
  the handle has one entry. For a \<^verbatim>\<open>python_environment\<close> entry the trace is empty: the
  mapping has the single entry of the attribute and its pointer, built without loading
  or listing anything.
\<close>

theorem explicit_attribute_skips_discovery:
  assumes "if_truthy attribute = Some a"
  shows
    "module_loadable_targets env mname attribute
       = ([DefFromPointer (from_module mname a)],
          case def_from_pointer env (from_module mname a) of
            Inl e \<Rightarrow> Inl e | Inr d \<Rightarrow> Inr [LoadableTarget a d])
   \<and> fst (location_handle_from_module_name env mname attribute api location_name)
       = [DefFromPointer (from_module mname a)]
   \<and> (def_from_pointer env (from_module mname a) = Inr d \<longrightarrow>
        snd (location_handle_from_module_name env mname attribute api location_name)
          = Inr (OutOfProcessRepositoryLocationHandle
                   (case if_truthy location_name of Some n \<Rightarrow> n | None \<Rightarrow> definition_name d)
                   [(definition_name d, from_module mname a)] api))
   \<and> package_loadable_targets env pname attribute
       = ([DefFromPointer (from_python_package pname a)],
          case def_from_pointer env (from_python_package pname a) of
            Inl e \<Rightarrow> Inl e | Inr d \<Rightarrow> Inr [LoadableTarget a d])
   \<and> fst (location_handle_from_package_name env pname attribute api location_name)
       = [DefFromPointer (from_python_package pname a)]
   \<and> (def_from_pointer env (from_python_package pname a) = Inr d \<longrightarrow>
        snd (location_handle_from_package_name env pname attribute api location_name)
          = Inr (OutOfProcessRepositoryLocationHandle
                   (case if_truthy location_name of Some n \<Rightarrow> n | None \<Rightarrow> definition_name d)
                   [(definition_name d, from_python_package pname a)]
                   (out_of_process_default_api env)))
   \<and> python_file_loadable_targets env python_file attribute working_directory
       = ([DefFromPointer (from_python_file python_file a working_directory)],
          case def_from_pointer env (from_python_file python_file a working_directory) of
            Inl e \<Rightarrow> Inl e | Inr d \<Rightarrow> Inr [LoadableTarget a d])
   \<and> fst (location_handle_from_python_file env python_file attribute api location_name
            working_directory)
       = [DefFromPointer (from_python_file python_file a working_directory)]
   \<and> (def_from_pointer env (from_python_file python_file a working_directory) = Inr d \<longrightarrow>
        snd (location_handle_from_python_file env python_file attribute api location_name
               working_directory)
          = Inr (OutOfProcessRepositoryLocationHandle
                   (case if_truthy location_name of Some n \<Rightarrow> n | None \<Rightarrow> definition_name d)
                   [(definition_name d, from_python_file python_file a working_directory)] api))
   \<and> (truthy_file_config (tc_python_file (pe_target pe_file)) = Some file_config
        \<and> get_python_file_config_data file_config yaml_path
            = (absolute_path, attribute, location_name, wd) \<longrightarrow>
      location_handle_from_python_environment_config env pe_file yaml_path api
        = ([], Inr (PythonEnvRepositoryLocationHandle (expanduser env (pe_executable_path pe_file))
                      (case if_truthy location_name of Some n \<Rightarrow> n | None \<Rightarrow> a)
                      [(a, from_python_file absolute_path a wd)] api)))
   \<and> (truthy_file_config (tc_python_file (pe_target pe_module)) = None
        \<and> truthy_module_config (tc_python_module (pe_target pe_module)) = Some module_config
        \<and> get_module_config_data module_config = (mname, attribute, location_name) \<longrightarrow>
      location_handle_from_python_environment_config env pe_module yaml_path api
        = ([], Inr (PythonEnvRepositoryLocationHandle
                      (expanduser env (pe_executable_path pe_module))
                      (case if_truthy location_name of Some n \<Rightarrow> n | None \<Rightarrow> a)
                      [(a, from_module mname a)] api)))
   \<and> (truthy_file_config (tc_python_file (pe_target pe_package)) = None
        \<and> truthy_module_config (tc_python_module (pe_target pe_package)) = None
        \<and> truthy_package_config (tc_python_package (pe_target pe_package)) = Some package_config
        \<and> get_package_config_data package_config = (pname, attribute, location_name) \<longrightarrow>
      location_handle_from_python_environment_config env pe_package yaml_path api
        = ([], Inr (PythonEnvRepositoryLocationHandle
                      (expanduser env (pe_executable_path pe_package))
                      (case if_truthy location_name of Some n \<Rightarrow> n | None \<Rightarrow> a)
                      [(a, from_python_package pname a)] api)))"
  using module_explicit [OF assms] package_explicit [OF assms] python_file_explicit [OF assms]
    python_environment_explicit [OF assms]
  by (simp add: location_handle_from_python_environment_config_def)

theorem explicit_attribute_skips_discovery_witness:
  "location_handle_from_module_name example_env ''pkg.repo'' (Some ''my_repo'') CLI None
     = ([DefFromPointer (ModuleCodePointer ''pkg.repo'' ''my_repo'')],
        Inr (OutOfProcessRepositoryLocationHandle ''prod''
               [(''prod'', ModuleCodePointer ''pkg.repo'' ''my_repo'')] CLI))
   \<and> location_handle_from_package_name example_env ''pkg'' (Some ''my_repo'') CLI None
     = ([DefFromPointer (PackageCodePointer ''pkg'' ''my_repo'')],
        Inr (OutOfProcessRepositoryLocationHandle ''prod''
               [(''prod'', PackageCodePointer ''pkg'' ''my_repo'')] CLI))
   \<and> location_handle_from_python_file example_env ''/ws/repo.py'' (Some ''my_repo'') CLI None None
     = ([DefFromPointer (FileCodePointer ''/ws/repo.py'' ''my_repo'' None)],
        Inr (OutOfProcessRepositoryLocationHandle ''prod''
               [(''prod'', FileCodePointer ''/ws/repo.py'' ''my_repo'' None)] CLI))
   \<and> location_handle_from_python_environment_config example_env example_pe_file_attribute
       ''/ws/dev.yaml'' CLI
     = ([], Inr (PythonEnvRepositoryLocationHandle ''/home/user/venv/bin/python'' ''my_repo''
                   [(''my_repo'', FileCodePointer ''/ws/repo.py'' ''my_repo'' None)] CLI))
   \<and> location_handle_from_python_environment_config example_env example_pe_attribute
       ''/ws/dev.yaml'' CLI
     = ([], Inr (PythonEnvRepositoryLocationHandle ''/home/user/venv/bin/python'' ''my_repo''
                   [(''my_repo'', ModuleCodePointer ''pkg.repo'' ''my_repo'')] CLI))
   \<and> location_handle_from_python_environment_config example_env example_pe_package_attribute
       ''/ws/dev.yaml'' CLI
     = ([], Inr (PythonEnvRepositoryLocationHandle ''/home/user/venv/bin/python'' ''my_repo''
                   [(''my_repo'', PackageCodePointer ''pkg'' ''my_repo'')] CLI))"
proof -
  have a: "if_truthy (Some ''my_repo'') = Some ''my_repo''"
    by simp
  have d: "def_from_pointer example_env p = Inr (RepositoryDefinition ''prod'')" for p
    by (simp add: example_env_def)
  have e: "expanduser example_env ''~/venv/bin/python'' = ''/home/user/venv/bin/python''"
    by (simp add: example_env_def)
  have c: "out_of_process_default_api example_env = CLI"
    by (simp add: example_env_def)
  have r: "rebase_file ''repo.py'' ''/ws/dev.yaml'' = ''/ws/repo.py''"
    by (simp add: rebase_file_def dirname_def path_join_def is_absolute_def)
  show ?thesis
    using explicit_attribute_skips_discovery [OF a, where env = example_env and api = CLI
        and yaml_path = "''/ws/dev.yaml''" and d = "RepositoryDefinition ''prod''"
        and mname = "''pkg.repo''" and pname = "''pkg''" and python_file = "''/ws/repo.py''"
        and working_directory = None and location_name = None
        and pe_file = example_pe_file_attribute
        and file_config = "FileDict ''repo.py'' (Some ''my_repo'') None None"
        and absolute_path = "''/ws/repo.py''" and wd = None
        and pe_module = example_pe_attribute
        and module_config = "ModuleDict ''pkg.repo'' (Some ''my_repo'') None"
        and pe_package = example_pe_package_attribute
        and package_config = "PackageDict ''pkg'' (Some ''my_repo'') None"]
    by (simp add: d e c r example_pe_file_attribute_def example_pe_attribute_def
        example_pe_package_attribute_def from_module_def from_python_package_def
        from_python_file_def prod_eq_iff)
qed

subsection \<open>Merging documents\<close>

lemma dict_set_values:
  "(k', v') \<in> set (dict_set d k v) \<Longrightarrow> (k', v') \<in> set d \<or> (k', v') = (k, v)"
  by (induction d k v rule: dict_set.induct) (auto split: if_splits)

lemma dict_set_fresh: "k \<notin> set (dict_keys d) \<Longrightarrow> dict_set d k v = d @ [(k, v)]"
  by (induction d k v rule: dict_set.induct) (auto simp: dict_keys_def)

lemma keyed_dict_set:
  assumes "keyed_by_location_name d" and "handle_location_name h = k"
  shows "keyed_by_location_name (dict_set d k h)"
proof -
  have "list_all (\<lambda>(n, h). handle_location_name h = n) (dict_set d k h)"
    using assms dict_set_values [of _ _ d k h]
    by (fastforce simp: keyed_by_location_name_def list_all_iff)
  then show ?thesis
    using assms by (simp add: keyed_by_location_name_def distinct_dict_set)
qed

lemma keyed_fold:
  "keyed_by_location_name d \<Longrightarrow>
   keyed_by_location_name (fold (\<lambda>h d. dict_set d (handle_location_name h) h) hs d)"
  by (induction hs arbitrary: d) (simp_all add: keyed_dict_set)

lemma keyed_Workspace: "keyed_by_location_name (Workspace hs)"
  unfolding Workspace_def by (rule keyed_fold) (simp add: keyed_by_location_name_def dict_keys_def)

lemma Workspace_of_keyed_aux:
  "keyed_by_location_name (acc @ d) \<Longrightarrow>
   fold (\<lambda>h d. dict_set d (handle_location_name h) h) (dict_values d) acc = acc @ d"
proof (induction d arbitrary: acc)
  case Nil
  then show ?case by (simp add: dict_values_def)
next
  case (Cons x d)
  obtain n h where x: "x = (n, h)" by (cases x)
  have n: "handle_location_name h = n" "n \<notin> set (dict_keys acc)"
    using Cons.prems by (auto simp: keyed_by_location_name_def dict_keys_def x)
  have "keyed_by_location_name ((acc @ [(n, h)]) @ d)"
    using Cons.prems by (simp add: x)
  then have "fold (\<lambda>h d. dict_set d (handle_location_name h) h) (dict_values d) (acc @ [(n, h)])
               = (acc @ [(n, h)]) @ d"
    by (rule Cons.IH)
  then show ?case
    using n by (simp add: x dict_values_def dict_set_fresh)
qed

lemma Workspace_of_keyed: "keyed_by_location_name d \<Longrightarrow> Workspace (dict_values d) = d"
  using Workspace_of_keyed_aux [of "[]" d] by (simp add: Workspace_def)

lemma keyed_lookup:
  "keyed_by_location_name w \<Longrightarrow> map_of w n = Some h \<Longrightarrow> handle_location_name h = n"
  by (auto simp: keyed_by_location_name_def list_all_iff dest: map_of_SomeD)

lemma collect_location_handles_result:
  assumes "keyed_by_location_name w" and "keyed_by_location_name d"
    and "set names \<subseteq> set (dict_keys w)"
  shows "\<exists>d'. collect_location_handles w names d = Inr d' \<and> keyed_by_location_name d'
           \<and> (\<forall>n. map_of d' n = (if n \<in> set names then map_of w n else map_of d n))"
  using assms(2,3)
proof (induction names arbitrary: d)
  case Nil
  then show ?case by simp
next
  case (Cons name names)
  from Cons.prems(2) obtain h where h: "map_of w name = Some h"
    by (cases "map_of w name") (auto simp: dict_keys_def map_of_eq_None_iff)
  have k: "keyed_by_location_name (dict_set d name h)"
    using Cons.prems(1) keyed_lookup [OF assms(1) h] by (rule keyed_dict_set)
  from Cons.IH [OF k] Cons.prems(2)
  obtain d' where d': "collect_location_handles w names (dict_set d name h) = Inr d'"
      "keyed_by_location_name d'"
      "\<forall>n. map_of d' n = (if n \<in> set names then map_of w n else map_of (dict_set d name h) n)"
    by auto
  show ?case
    using d' h by (auto simp: get_repository_location_handle_def map_of_dict_set)
qed

lemma merge_workspaces:
  assumes "list_all keyed_by_location_name workspaces" and "keyed_by_location_name d"
  shows "\<exists>d'. repository_location_handles_dict_of workspaces d = Inr d'
           \<and> keyed_by_location_name d'
           \<and> (\<forall>n. map_of d' n
                 = (case merged_lookup workspaces n of Some h \<Rightarrow> Some h | None \<Rightarrow> map_of d n))"
  using assms
proof (induction workspaces arbitrary: d)
  case Nil
  then show ?case by simp
next
  case (Cons w workspaces)
  then have w: "keyed_by_location_name w" and ws: "list_all keyed_by_location_name workspaces"
    by simp_all
  obtain d1 where d1: "collect_location_handles w (repository_location_names w) d = Inr d1"
      "keyed_by_location_name d1"
      "\<forall>n. map_of d1 n = (if n \<in> set (dict_keys w) then map_of w n else map_of d n)"
    using collect_location_handles_result [OF w Cons.prems(2), of "dict_keys w"]
    by (auto simp: repository_location_names_def)
  obtain d' where d': "repository_location_handles_dict_of workspaces d1 = Inr d'"
      "keyed_by_location_name d'"
      "\<forall>n. map_of d' n
         = (case merged_lookup workspaces n of Some h \<Rightarrow> Some h | None \<Rightarrow> map_of d1 n)"
    using Cons.IH [OF ws d1(2)] by blast
  have "map_of d' n
          = (case merged_lookup (w # workspaces) n of Some h \<Rightarrow> Some h | None \<Rightarrow> map_of d n)" for n
  proof (cases "merged_lookup workspaces n")
    case (Some h)
    then show ?thesis using d'(3) by simp
  next
    case None
    have "map_of d1 n = (case map_of w n of Some h \<Rightarrow> Some h | None \<Rightarrow> map_of d n)"
    proof (cases "map_of w n")
      case None
      then have "n \<notin> set (dict_keys w)"
        by (simp add: dict_keys_def map_of_eq_None_iff)
      then show ?thesis using d1(3) None by simp
    next
      case (Some h)
      then have "n \<in> set (dict_keys w)"
        by (force simp: dict_keys_def dest: map_of_SomeD)
      then show ?thesis using d1(3) Some by simp
    qed
    then show ?thesis using d'(3) None by simp
  qed
  then show ?case
    using d1(1) d'(1,2) by simp
qed

lemma load_workspace_from_config_keyed:
  "snd (load_workspace_from_config env workspace_config yaml_path) = Inr w \<Longrightarrow>
   keyed_by_location_name w"
  by (auto simp: load_workspace_from_config_def snd_traced_bind snd_traced_simps keyed_Workspace
      split: option.splits sum.splits)

lemma snd_traced_map:
  "(snd (traced_map f xs) = Inr ys) = list_all2 (\<lambda>x y. snd (f x) = Inr y) xs ys"
proof (induction xs arbitrary: ys)
  case Nil
  then show ?case by (auto simp: snd_traced_simps)
next
  case (Cons x xs)
  show ?case
  proof (cases "snd (f x)")
    case (Inl e)
    then show ?thesis
      by (simp add: snd_traced_bind list_all2_Cons1)
  next
    case (Inr y)
    show ?thesis
    proof (cases "snd (traced_map f xs)")
      case (Inl e)
      then have "\<not> list_all2 (\<lambda>x y. snd (f x) = Inr y) xs zs" for zs
        using Cons.IH [of zs] by simp
      then show ?thesis
        using Inr Inl by (simp add: snd_traced_bind list_all2_Cons1)
    next
      case r: (Inr zs)
      then have "list_all2 (\<lambda>x y. snd (f x) = Inr y) xs zs' = (zs' = zs)" for zs'
        using Cons.IH [of zs'] by auto
      then show ?thesis
        using Inr r by (auto simp: snd_traced_bind snd_traced_simps list_all2_Cons1)
    qed
  qed
qed

lemma list_all2_results:
  "list_all2 P xs ys \<Longrightarrow> (\<And>x y. P x y \<Longrightarrow> Q y) \<Longrightarrow> list_all Q ys"
  by (induction rule: list_all2_induct) auto

lemma load_workspace_from_yaml_paths_dict:
  assumes "list_all2 (\<lambda>p c. load_yaml_from_path env p = Inr c) paths configs"
    and "list_all2 (\<lambda>(c, p) w. snd (load_workspace_from_config env c p) = Inr w)
           (zip configs paths) workspaces"
  shows "\<exists>d. repository_location_handles_dict_of workspaces [] = Inr d
           \<and> keyed_by_location_name d
           \<and> (\<forall>n. map_of d n = merged_lookup workspaces n)
           \<and> snd (load_workspace_from_yaml_paths env paths) = Inr (Workspace (dict_values d))"
proof -
  have c: "snd (traced_map (\<lambda>p. traced_lift (load_yaml_from_path env p)) paths) = Inr configs"
    using assms(1) by (simp add: snd_traced_map snd_traced_simps)
  have w: "snd (traced_map (\<lambda>(c, p). load_workspace_from_config env c p) (zip configs paths))
             = Inr workspaces"
    using assms(2) by (simp add: snd_traced_map case_prod_unfold)
  have "list_all keyed_by_location_name workspaces"
    using assms(2)
    by (rule list_all2_results) (auto dest: load_workspace_from_config_keyed)
  moreover have "keyed_by_location_name []"
    by (simp add: keyed_by_location_name_def dict_keys_def)
  ultimately obtain d where d: "repository_location_handles_dict_of workspaces [] = Inr d"
      "keyed_by_location_name d"
      "\<forall>n. map_of d n
         = (case merged_lookup workspaces n of Some h \<Rightarrow> Some h | None \<Rightarrow> map_of [] n)"
    using merge_workspaces [of workspaces "[]"] by blast
  have "snd (load_workspace_from_yaml_paths env paths) = Inr (Workspace (dict_values d))"
    using c w d(1)
    by (simp add: load_workspace_from_yaml_paths_def snd_traced_bind snd_traced_simps)
  moreover have "map_of d n = merged_lookup workspaces n" for n
    using d(3) by (simp split: option.splits)
  ultimately show ?thesis
    using d(1,2) by blast
qed

text \<open>
  C5. Loading several documents never fails because two of them define a location of
  the same name. The loop over the workspaces of the documents builds one dictionary:
  it has one entry for each name, and under each name the handle of the last document
  that has the name. The result is the workspace of the values of that dictionary, so
  looking a name up in it gives the handle of the last document that has the name, and
  a \<open>KeyError\<close> when no document has it. In particular, when documents 1 and 2 both
  define the name, the dictionary and the merged workspace hold the handle of document 2.
\<close>

theorem merge_last_document_wins:
  "(list_all2 (\<lambda>p c. load_yaml_from_path env p = Inr c) paths configs
      \<and> list_all2 (\<lambda>(c, p) w. snd (load_workspace_from_config env c p) = Inr w)
          (zip configs paths) workspaces \<longrightarrow>
    (\<exists>d. repository_location_handles_dict_of workspaces [] = Inr d
       \<and> distinct (dict_keys d)
       \<and> (\<forall>n. map_of d n = merged_lookup workspaces n)
       \<and> snd (load_workspace_from_yaml_paths env paths) = Inr (Workspace (dict_values d))
       \<and> (\<forall>n. get_repository_location_handle (Workspace (dict_values d)) n
             = (case merged_lookup workspaces n of
                  Some h \<Rightarrow> Inr h
                | None \<Rightarrow> Inl (KeyError n)))))
   \<and> (load_yaml_from_path env path1 = Inr config1
      \<and> load_yaml_from_path env path2 = Inr config2
      \<and> snd (load_workspace_from_config env config1 path1) = Inr w1
      \<and> snd (load_workspace_from_config env config2 path2) = Inr w2
      \<and> get_repository_location_handle w1 name = Inr h1
      \<and> get_repository_location_handle w2 name = Inr h2 \<longrightarrow>
    (\<exists>d. repository_location_handles_dict_of [w1, w2] [] = Inr d
       \<and> distinct (dict_keys d)
       \<and> map_of d name = Some h2
       \<and> snd (load_workspace_from_yaml_paths env [path1, path2])
           = Inr (Workspace (dict_values d))
       \<and> get_repository_location_handle (Workspace (dict_values d)) name = Inr h2))"
proof (intro conjI impI)
  assume "list_all2 (\<lambda>p c. load_yaml_from_path env p = Inr c) paths configs
      \<and> list_all2 (\<lambda>(c, p) w. snd (load_workspace_from_config env c p) = Inr w)
          (zip configs paths) workspaces"
  then obtain d where d: "repository_location_handles_dict_of workspaces [] = Inr d"
    "keyed_by_location_name d" "\<forall>n. map_of d n = merged_lookup workspaces n"
    "snd (load_workspace_from_yaml_paths env paths) = Inr (Workspace (dict_values d))"
    using load_workspace_from_yaml_paths_dict by blast
  have "distinct (dict_keys d)"
    using d(2) by (simp add: keyed_by_location_name_def)
  moreover have "get_repository_location_handle (Workspace (dict_values d)) n
             = (case merged_lookup workspaces n of
                  Some h \<Rightarrow> Inr h
                | None \<Rightarrow> Inl (KeyError n))" for n
    using d(2,3) by (simp add: Workspace_of_keyed get_repository_location_handle_def)
  ultimately show "\<exists>d. repository_location_handles_dict_of workspaces [] = Inr d
       \<and> distinct (dict_keys d)
       \<and> (\<forall>n. map_of d n = merged_lookup workspaces n)
       \<and> snd (load_workspace_from_yaml_paths env paths) = Inr (Workspace (dict_values d))
       \<and> (\<forall>n. get_repository_location_handle (Workspace (dict_values d)) n
             = (case merged_lookup workspaces n of
                  Some h \<Rightarrow> Inr h
                | None \<Rightarrow> Inl (KeyError n)))"
    using d(1,3,4) by blast
next
  assume a: "load_yaml_from_path env path1 = Inr config1
      \<and> load_yaml_from_path env path2 = Inr config2
      \<and> snd (load_workspace_from_config env config1 path1) = Inr w1
      \<and> snd (load_workspace_from_config env config2 path2) = Inr w2
      \<and> get_repository_location_handle w1 name = Inr h1
      \<and> get_repository_location_handle w2 name = Inr h2"
  then have "list_all2 (\<lambda>p c. load_yaml_from_path env p = Inr c) [path1, path2] [config1, config2]"
    and "list_all2 (\<lambda>(c, p) w. snd (load_workspace_from_config env c p) = Inr w)
           (zip [config1, config2] [path1, path2]) [w1, w2]"
    by simp_all
  then obtain d where d: "repository_location_handles_dict_of [w1, w2] [] = Inr d"
    "keyed_by_location_name d" "\<forall>n. map_of d n = merged_lookup [w1, w2] n"
    "snd (load_workspace_from_yaml_paths env [path1, path2]) = Inr (Workspace (dict_values d))"
    using load_workspace_from_yaml_paths_dict by blast
  have "map_of w2 name = Some h2"
    using a by (auto simp: get_repository_location_handle_def split: option.splits)
  then have m: "map_of d name = Some h2"
    using d(3) by simp
  then have "get_repository_location_handle (Workspace (dict_values d)) name = Inr h2"
    using d(2) by (simp add: Workspace_of_keyed get_repository_location_handle_def)
  moreover have "distinct (dict_keys d)"
    using d(2) by (simp add: keyed_by_location_name_def)
  ultimately show "\<exists>d. repository_location_handles_dict_of [w1, w2] [] = Inr d
       \<and> distinct (dict_keys d)
       \<and> map_of d name = Some h2
       \<and> snd (load_workspace_from_yaml_paths env [path1, path2])
           = Inr (Workspace (dict_values d))
       \<and> get_repository_location_handle (Workspace (dict_values d)) name = Inr h2"
    using d(1,4) m by blast
qed

theorem merge_last_document_wins_witness:
  "snd (load_workspace_from_config example_merge_env example_document_a ''/ws/a.yaml'')
     = Inr [(''A'', GrpcServerRepositoryLocationHandle (Some 4000) None ''localhost'' ''A'')]
   \<and> snd (load_workspace_from_config example_merge_env example_document_b ''/ws/b.yaml'')
     = Inr [(''A'', GrpcServerRepositoryLocationHandle (Some 5000) None ''localhost'' ''A'')]
   \<and> repository_location_handles_dict_of
       [[(''A'', GrpcServerRepositoryLocationHandle (Some 4000) None ''localhost'' ''A'')],
        [(''A'', GrpcServerRepositoryLocationHandle (Some 5000) None ''localhost'' ''A'')]] []
     = Inr [(''A'', GrpcServerRepositoryLocationHandle (Some 5000) None ''localhost'' ''A'')]
   \<and> snd (load_workspace_from_yaml_paths example_merge_env [''/ws/a.yaml'', ''/ws/b.yaml''])
     = Inr [(''A'', GrpcServerRepositoryLocationHandle (Some 5000) None ''localhost'' ''A'')]
   \<and> (\<exists>d. repository_location_handles_dict_of
             [[(''A'', GrpcServerRepositoryLocationHandle (Some 4000) None ''localhost'' ''A'')],
              [(''A'', GrpcServerRepositoryLocationHandle (Some 5000) None ''localhost'' ''A'')]]
             [] = Inr d
          \<and> distinct (dict_keys d)
          \<and> map_of d ''A''
             = Some (GrpcServerRepositoryLocationHandle (Some 5000) None ''localhost'' ''A'')
          \<and> snd (load_workspace_from_yaml_paths example_merge_env
                   [''/ws/a.yaml'', ''/ws/b.yaml''])
             = Inr (Workspace (dict_values d))
          \<and> get_repository_location_handle (Workspace (dict_values d)) ''A''
             = Inr (GrpcServerRepositoryLocationHandle (Some 5000) None ''localhost'' ''A''))
   \<and> (\<exists>d. repository_location_handles_dict_of
             [[(''A'', GrpcServerRepositoryLocationHandle (Some 4000) None ''localhost'' ''A'')],
              [(''A'', GrpcServerRepositoryLocationHandle (Some 5000) None ''localhost'' ''A'')]]
             [] = Inr d
          \<and> distinct (dict_keys d)
          \<and> (\<forall>n. map_of d n
                = merged_lookup
                    [[(''A'', GrpcServerRepositoryLocationHandle (Some 4000) None
                                ''localhost'' ''A'')],
                     [(''A'', GrpcServerRepositoryLocationHandle (Some 5000) None
                                ''localhost'' ''A'')]] n))"
proof -
  let ?ha = "GrpcServerRepositoryLocationHandle (Some 4000) None ''localhost'' ''A''"
  let ?hb = "GrpcServerRepositoryLocationHandle (Some 5000) None ''localhost'' ''A''"
  have y: "load_yaml_from_path example_merge_env ''/ws/a.yaml'' = Inr example_document_a"
    "load_yaml_from_path example_merge_env ''/ws/b.yaml'' = Inr example_document_b"
    by (simp_all add: example_merge_env_def)
  have ens: "ensure_workspace_config example_merge_env c p = None" for c p
    by (simp add: example_merge_env_def example_env_def)
  have a: "snd (load_workspace_from_config example_merge_env example_document_a ''/ws/a.yaml'')
             = Inr [(''A'', ?ha)]"
    by (simp add: load_workspace_from_config_def ens example_document_a_def
        location_handle_from_location_config_def location_handle_from_grpc_server_config_def
        create_grpc_server_location_def truthy_str_def traced_defs Workspace_def)
  have b: "snd (load_workspace_from_config example_merge_env example_document_b ''/ws/b.yaml'')
             = Inr [(''A'', ?hb)]"
    by (simp add: load_workspace_from_config_def ens example_document_b_def
        location_handle_from_location_config_def location_handle_from_grpc_server_config_def
        create_grpc_server_location_def truthy_str_def traced_defs Workspace_def)
  have ga: "get_repository_location_handle [(''A'', ?ha)] ''A'' = Inr ?ha"
    and gb: "get_repository_location_handle [(''A'', ?hb)] ''A'' = Inr ?hb"
    by (simp_all add: get_repository_location_handle_def)
  have m: "repository_location_handles_dict_of [[(''A'', ?ha)], [(''A'', ?hb)]] []
             = Inr [(''A'', ?hb)]"
    by (simp add: repository_location_names_def dict_keys_def
        get_repository_location_handle_def)
  note inst = merge_last_document_wins [where env = example_merge_env
        and paths = "[''/ws/a.yaml'', ''/ws/b.yaml'']"
        and configs = "[example_document_a, example_document_b]"
        and workspaces = "[[(''A'', ?ha)], [(''A'', ?hb)]]"
        and ?path1.0 = "''/ws/a.yaml''" and ?path2.0 = "''/ws/b.yaml''"
        and ?config1.0 = example_document_a and ?config2.0 = example_document_b
        and ?w1.0 = "[(''A'', ?ha)]" and ?w2.0 = "[(''A'', ?hb)]" and name = "''A''"
        and ?h1.0 = ?ha and ?h2.0 = ?hb]
  have two: "\<exists>d. repository_location_handles_dict_of [[(''A'', ?ha)], [(''A'', ?hb)]] [] = Inr d
          \<and> distinct (dict_keys d)
          \<and> map_of d ''A'' = Some ?hb
          \<and> snd (load_workspace_from_yaml_paths example_merge_env
                   [''/ws/a.yaml'', ''/ws/b.yaml''])
             = Inr (Workspace (dict_values d))
          \<and> get_repository_location_handle (Workspace (dict_values d)) ''A'' = Inr ?hb"
    using inst y a b ga gb by blast
  have gen: "\<exists>d. repository_location_handles_dict_of [[(''A'', ?ha)], [(''A'', ?hb)]] [] = Inr d
          \<and> distinct (dict_keys d)
          \<and> (\<forall>n. map_of d n = merged_lookup [[(''A'', ?ha)], [(''A'', ?hb)]] n)"
  proof -
    have "list_all2 (\<lambda>p c. load_yaml_from_path example_merge_env p = Inr c)
            [''/ws/a.yaml'', ''/ws/b.yaml''] [example_document_a, example_document_b]"
      using y by simp
    moreover have "list_all2
            (\<lambda>(c, p) w. snd (load_workspace_from_config example_merge_env c p) = Inr w)
            (zip [example_document_a, example_document_b] [''/ws/a.yaml'', ''/ws/b.yaml''])
            [[(''A'', ?ha)], [(''A'', ?hb)]]"
      using a b by simp
    ultimately show ?thesis
      using inst by blast
  qed
  have l: "snd (load_workspace_from_yaml_paths example_merge_env [''/ws/a.yaml'', ''/ws/b.yaml''])
             = Inr [(''A'', ?hb)]"
    using two m by (auto simp: Workspace_def dict_values_def)
  show ?thesis
    using a b m l two gen by blast
qed

subsection \<open>Server entries\<close>

text \<open>
  C6, as stated, fails when the port that is set is \<open>0\<close>: the entry
  \<^verbatim>\<open>{port: 0, socket: /tmp/dagster.sock}\<close> has both keys set and resolves to a handle.
\<close>

theorem grpc_zero_port_and_socket_counterexample:
  "location_handle_from_grpc_server_config example_grpc_zero_port_and_socket ''/ws/dev.yaml''
     = Inr (GrpcServerRepositoryLocationHandle (Some 0) (Some ''/tmp/dagster.sock'')
              ''localhost'' ''grpc:localhost:/tmp/dagster.sock'')"
  by (simp add: location_handle_from_grpc_server_config_def example_grpc_zero_port_and_socket_def
      truthy_str_def assign_grpc_location_name_def create_grpc_server_location_def)

text \<open>
  C6 (amended). Exactly one of port and socket must have a true value, that is a
  non-zero port or a non-empty socket. When both have one and when neither has,
  resolution fails with the \<open>CheckError\<close> ``must supply either a socket or a port''
  (a ConfigurationError in the words of the spec); when exactly one has, resolution
  yields a handle. A port \<open>0\<close> and an empty socket count as not set.
\<close>

theorem grpc_exactly_one_of_port_and_socket:
  "(truthy_int (grpc_port c) = truthy_str (grpc_socket c) \<longrightarrow>
      location_handle_from_grpc_server_config c yaml_path
        = Inl (CheckError ''must supply either a socket or a port''))
   \<and> (truthy_int (grpc_port c) \<noteq> truthy_str (grpc_socket c) \<longrightarrow>
      (\<exists>h. location_handle_from_grpc_server_config c yaml_path = Inr h))"
  by (auto simp: location_handle_from_grpc_server_config_def Let_def
      assign_grpc_location_name_def create_grpc_server_location_def split: option.splits)

theorem grpc_exactly_one_of_port_and_socket_witness:
  "location_handle_from_grpc_server_config example_grpc_port_and_socket ''/ws/dev.yaml''
     = Inl (CheckError ''must supply either a socket or a port'')
   \<and> location_handle_from_grpc_server_config example_grpc_neither ''/ws/dev.yaml''
     = Inl (CheckError ''must supply either a socket or a port'')
   \<and> (\<exists>h. location_handle_from_grpc_server_config example_grpc_socket ''/ws/dev.yaml'' = Inr h)"
  using grpc_exactly_one_of_port_and_socket [of example_grpc_port_and_socket "''/ws/dev.yaml''"]
    grpc_exactly_one_of_port_and_socket [of example_grpc_neither "''/ws/dev.yaml''"]
    grpc_exactly_one_of_port_and_socket [of example_grpc_socket "''/ws/dev.yaml''"]
  by (simp add: example_grpc_port_and_socket_def example_grpc_neither_def example_grpc_socket_def
      truthy_str_def)

lemma str_int_4000: "str_int 4000 = ''4000''"
  by (simp add: str_int_def str_nat.simps digit_char_def)

text \<open>
  C7. A server entry without an explicit (non-empty) location name that resolves is
  named \<^verbatim>\<open>grpc:{host}:{socket_or_port}\<close>: the host is \<open>localhost\<close> when none is given, and
  the last part is the socket when one is given and the decimal port otherwise. The
  witness is the entry \<^verbatim>\<open>{port: 4000}\<close>, named \<^verbatim>\<open>grpc:localhost:4000\<close>.
\<close>

theorem grpc_default_location_name:
  assumes "if_truthy (grpc_location_name c) = None"
    and "location_handle_from_grpc_server_config c yaml_path = Inr h"
  shows "(if_truthy (grpc_socket c) = Some s \<longrightarrow>
            handle_location_name h
              = ''grpc:'' @ (case if_truthy (grpc_host c) of Some host \<Rightarrow> host | None \<Rightarrow> ''localhost'')
                @ '':'' @ s)
       \<and> (if_truthy (grpc_socket c) = None \<longrightarrow>
            (\<exists>p. grpc_port c = Some p \<and> p \<noteq> 0 \<and>
              handle_location_name h
                = ''grpc:'' @ (case if_truthy (grpc_host c) of Some host \<Rightarrow> host | None \<Rightarrow> ''localhost'')
                  @ '':'' @ str_int p))"
  using assms
  by (cases "grpc_port c")
     (auto simp: location_handle_from_grpc_server_config_def Let_def truthy_str_def
      assign_grpc_location_name_def create_grpc_server_location_def
      split: option.splits if_splits)

theorem grpc_default_location_name_witness:
  "location_handle_from_grpc_server_config example_grpc_port_4000 ''/ws/dev.yaml''
     = Inr (GrpcServerRepositoryLocationHandle (Some 4000) None ''localhost''
              ''grpc:localhost:4000'')
   \<and> (\<exists>p. grpc_port example_grpc_port_4000 = Some p \<and> p \<noteq> 0 \<and>
         handle_location_name
           (GrpcServerRepositoryLocationHandle (Some 4000) None ''localhost'' ''grpc:localhost:4000'')
         = ''grpc:localhost:'' @ str_int p)
   \<and> location_handle_from_grpc_server_config example_grpc_socket ''/ws/dev.yaml''
     = Inr (GrpcServerRepositoryLocationHandle None (Some ''/tmp/dagster.sock'') ''example.org''
              ''grpc:example.org:/tmp/dagster.sock'')"
proof -
  have r: "location_handle_from_grpc_server_config example_grpc_port_4000 ''/ws/dev.yaml''
     = Inr (GrpcServerRepositoryLocationHandle (Some 4000) None ''localhost''
              ''grpc:localhost:4000'')"
    by (simp add: location_handle_from_grpc_server_config_def example_grpc_port_4000_def
        truthy_str_def assign_grpc_location_name_def create_grpc_server_location_def str_int_4000)
  have n: "if_truthy (grpc_location_name example_grpc_port_4000) = None"
    by (simp add: example_grpc_port_4000_def)
  have r2: "location_handle_from_grpc_server_config example_grpc_socket ''/ws/dev.yaml''
     = Inr (GrpcServerRepositoryLocationHandle None (Some ''/tmp/dagster.sock'') ''example.org''
              ''grpc:example.org:/tmp/dagster.sock'')"
    by (simp add: location_handle_from_grpc_server_config_def example_grpc_socket_def
        truthy_str_def assign_grpc_location_name_def create_grpc_server_location_def)
  show ?thesis
    using grpc_default_location_name [OF n r] r r2
    by (simp add: example_grpc_port_4000_def)
qed

subsection \<open>Paths and working directories\<close>

text \<open>
  C9. The data read from a \<^verbatim>\<open>python_file\<close> config: the target path is unchanged when it is
  absolute, and joined to the directory of the workspace document when it is relative
  (the result depends on the two paths only, not on a current directory); a working
  directory that is given and non-empty is resolved in the same way; one that is absent
  or empty stays \<open>None\<close>. The path \<^verbatim>\<open>repo.py\<close> in the document \<^verbatim>\<open>/ws/dev.yaml\<close> becomes
  \<^verbatim>\<open>/ws/repo.py\<close>. \<open>rebase_file\<close> is modelled from the spec.
\<close>

theorem python_file_config_paths_rebased:
  "get_python_file_config_data (FileStr p) yaml_path
     = (if is_absolute p then p else path_join (dirname yaml_path) p, None, None, None)
   \<and> get_python_file_config_data (FileDict p attribute location_name working_directory) yaml_path
     = (if is_absolute p then p else path_join (dirname yaml_path) p, attribute, location_name,
        case if_truthy working_directory of
          None \<Rightarrow> None
        | Some wd \<Rightarrow> Some (if is_absolute wd then wd else path_join (dirname yaml_path) wd))
   \<and> (\<not> is_absolute p \<longrightarrow>
        path_join (dirname yaml_path) p
          = (if dirname yaml_path = [] \<or> last (dirname yaml_path) = CHR ''/''
             then dirname yaml_path @ p else dirname yaml_path @ ''/'' @ p))
   \<and> dirname ''/ws/dev.yaml'' = ''/ws''
   \<and> get_python_file_config_data (FileDict ''repo.py'' None None None) ''/ws/dev.yaml''
     = (''/ws/repo.py'', None, None, None)"
  by (simp add: rebase_file_def path_join_def dirname_def is_absolute_def split: option.splits)

theorem python_file_config_paths_rebased_witness:
  "get_python_file_config_data (FileDict ''repo.py'' None None (Some ''work'')) ''/ws/dev.yaml''
     = (''/ws/repo.py'', None, None, Some ''/ws/work'')
   \<and> get_python_file_config_data (FileDict ''/opt/repo.py'' None None (Some [])) ''/ws/dev.yaml''
     = (''/opt/repo.py'', None, None, None)
   \<and> get_python_file_config_data (FileStr ''repo.py'') ''/ws/dev.yaml''
     = (''/ws/repo.py'', None, None, None)"
  using python_file_config_paths_rebased [of "''repo.py''" "''/ws/dev.yaml''" None None "Some ''work''"]
    python_file_config_paths_rebased [of "''/opt/repo.py''" "''/ws/dev.yaml''" None None "Some []"]
  by (simp add: path_join_def is_absolute_def)

lemma symbols_code_pointer_dict_values_aux:
  "list_all P (dict_values d0) \<Longrightarrow> (\<And>a. P (f a)) \<Longrightarrow>
   list_all P (dict_values (fold (\<lambda>lrs d. dict_set d (symbol_attribute lrs) (f (symbol_attribute lrs))) ss d0))"
proof (induction ss arbitrary: d0)
  case Nil
  then show ?case by simp
next
  case (Cons x ss)
  have "list_all P (dict_values (dict_set d0 (symbol_attribute x) (f (symbol_attribute x))))"
    using Cons.prems dict_set_values [of _ _ d0 "symbol_attribute x" "f (symbol_attribute x)"]
    by (fastforce simp: list_all_iff dict_values_def)
  then show ?case
    using Cons by simp
qed

lemma symbols_code_pointer_dict_values:
  "(\<And>a. P (f a)) \<Longrightarrow> list_all P (dict_values (symbols_code_pointer_dict f ss))"
  unfolding symbols_code_pointer_dict_def
  by (rule symbols_code_pointer_dict_values_aux) (simp_all add: dict_values_def)

text \<open>
  C10. For a \<^verbatim>\<open>python_environment\<close> entry with a file target, no attribute and a configured
  working directory, the only call of the remote lister has no working directory (and no
  module name), while every code pointer of the resolved handle carries the configured
  working directory, rebased on the document.
\<close>

theorem python_environment_file_listing_has_no_working_directory:
  assumes "truthy_file_config (tc_python_file (pe_target pe))
             = Some (FileDict relative_path attribute location_name (Some wd))"
    and "if_truthy attribute = None"
    and "wd \<noteq> []"
  shows "fst (location_handle_from_python_environment_config env pe yaml_path api)
           = [if api = GRPC
              then SyncListRepositoriesEphemeralGrpc (expanduser env (pe_executable_path pe))
                     (Some (rebase_file relative_path yaml_path)) None None
              else SyncListRepositories (expanduser env (pe_executable_path pe))
                     (Some (rebase_file relative_path yaml_path)) None None]
       \<and> (snd (location_handle_from_python_environment_config env pe yaml_path api) = Inr h \<longrightarrow>
            list_all (\<lambda>p. pointer_working_directory p = Some (rebase_file wd yaml_path))
              (dict_values (handle_repository_code_pointer_dict h)))"
proof -
  let ?exe = "expanduser env (pe_executable_path pe)"
  let ?fc = "FileDict relative_path attribute location_name (Some wd)"
  have run: "location_handle_from_python_environment_config env pe yaml_path api
               = python_environment_file env ?exe ?fc yaml_path api"
    using assms(1) by (simp add: location_handle_from_python_environment_config_def)
  have vals: "list_all (\<lambda>p. pointer_working_directory p = Some (rebase_file wd yaml_path))
                (dict_values (symbols_code_pointer_dict
                   (\<lambda>a. from_python_file (rebase_file relative_path yaml_path) a
                          (Some (rebase_file wd yaml_path))) ss))" for ss
    by (rule symbols_code_pointer_dict_values) (simp add: from_python_file_def)
  show ?thesis
    unfolding run using assms(2,3) vals
    by (auto simp: python_environment_file_def list_repositories_def traced_defs
        create_python_env_location_def
        split: sum.splits prod.splits)
qed

theorem python_environment_file_listing_has_no_working_directory_witness:
  "location_handle_from_python_environment_config example_env example_pe_file_wd ''/ws/dev.yaml''
       CLI
     = ([SyncListRepositories ''/home/user/venv/bin/python'' (Some ''/ws/repo.py'') None None],
        Inr (PythonEnvRepositoryLocationHandle ''/home/user/venv/bin/python'' ''my_repo''
               [(''my_repo'', FileCodePointer ''/ws/repo.py'' ''my_repo'' (Some ''/ws/work''))]
               CLI))
   \<and> list_all (\<lambda>p. pointer_working_directory p = Some ''/ws/work'')
       (dict_values [(''my_repo'', FileCodePointer ''/ws/repo.py'' ''my_repo'' (Some ''/ws/work''))])"
proof -
  have r: "location_handle_from_python_environment_config example_env example_pe_file_wd
             ''/ws/dev.yaml'' CLI
     = ([SyncListRepositories ''/home/user/venv/bin/python'' (Some ''/ws/repo.py'') None None],
        Inr (PythonEnvRepositoryLocationHandle ''/home/user/venv/bin/python'' ''my_repo''
               [(''my_repo'', FileCodePointer ''/ws/repo.py'' ''my_repo'' (Some ''/ws/work''))]
               CLI))"
    by (simp add: location_handle_from_python_environment_config_def example_pe_file_wd_def
        Let_def python_environment_file_def list_repositories_def traced_defs example_defs
        create_python_env_location_def assign_location_name_def symbols_code_pointer_dict_def
        from_python_file_def dict_keys_def rebase_file_def dirname_def path_join_def
        is_absolute_def)
  have w: "rebase_file ''work'' ''/ws/dev.yaml'' = ''/ws/work''"
    by (simp add: rebase_file_def dirname_def path_join_def is_absolute_def)
  show ?thesis
    using python_environment_file_listing_has_no_working_directory
      [where pe = example_pe_file_wd and relative_path = "''repo.py''" and attribute = None
         and location_name = None and wd = "''work''" and env = example_env
         and yaml_path = "''/ws/dev.yaml''" and api = CLI
         and h = "PythonEnvRepositoryLocationHandle ''/home/user/venv/bin/python'' ''my_repo''
               [(''my_repo'', FileCodePointer ''/ws/repo.py'' ''my_repo'' (Some ''/ws/work''))]
               CLI"]
      r w
    by (simp add: example_pe_file_wd_def dict_values_def)
qed

end
